theory Spec2Isabelle
  imports Complex_Main "HOL-Library.Char_ord" "HOL-Library.List_Lexorder"
begin

section \<open>The record browser of src/static/script.js and the two server adapters\<close>

text \<open>
  The client script keeps four variables (\<open>currentData\<close>, \<open>currentPage\<close>,
  \<open>itemsPerPage\<close>, \<open>totalPages\<close>) in the closure of its \<open>DOMContentLoaded\<close>
  listener and reads and writes the page's DOM. The model passes them around as one
  record \<open>state\<close>, together with the part of the DOM the script touches, the alerts and
  console lines it has produced and the requests it has issued. A DOM element that
  \<open>querySelector\<close> or \<open>getElementById\<close> does not find is \<open>None\<close>. A JavaScript
  exception is a value: an operation that can throw returns a \<open>completion\<close>, which
  carries the state reached when it returned or threw.

  JavaScript numbers are doubles; every number of the script is an integer far below
  \<open>2^53\<close> (a page number, an array length, an index), where double arithmetic is exact,
  so they are modelled as \<open>int\<close>. A string is a \<open>string\<close>: the list of the bytes of its
  UTF-8 encoding. Lists are ordered lexicographically and bytes by their value, which is
  the order of code points; \<open>Array.prototype.sort\<close> compares UTF-16 code units, and the
  two orders agree on all text that has no character beyond the Basic Multilingual Plane.
\<close>

subsection \<open>JSON values and records\<close>

text \<open>A field of a fetched record: missing, \<open>null\<close>, a string or a (whole) number.\<close>

datatype jsval = JUndefined | JNull | JString string | JNumber int

text \<open>\<open>Number.prototype.toString\<close> on a whole number: decimal digits, most significant first.\<close>

definition digit_char :: "nat \<Rightarrow> char" where
  "digit_char d = ''0123456789'' ! d"

function string_of_nat :: "nat \<Rightarrow> string" where
  "string_of_nat n =
     (if n < 10 then [digit_char n] else string_of_nat (n div 10) @ [digit_char (n mod 10)])"
  by pat_completeness auto
termination
  by (relation "measure id") auto

declare string_of_nat.simps [simp del]

definition string_of_int :: "int \<Rightarrow> string" where
  "string_of_int i = (if i < 0 then CHR ''-'' # string_of_nat (nat (- i)) else string_of_nat (nat i))"

text \<open>\<open>ToBoolean\<close> (what \<open>||\<close>, \<open>if\<close> and \<open>filter(Boolean)\<close> test) and \<open>ToString\<close>.\<close>

fun truthy :: "jsval \<Rightarrow> bool" where
  "truthy JUndefined = False"
| "truthy JNull = False"
| "truthy (JString s) = (s \<noteq> [])"
| "truthy (JNumber n) = (n \<noteq> 0)"

fun toStr :: "jsval \<Rightarrow> string" where
  "toStr JUndefined = ''undefined''"
| "toStr JNull = ''null''"
| "toStr (JString s) = s"
| "toStr (JNumber n) = string_of_int n"

text \<open>One price registration record, with the keys of the JSON response.\<close>

record item =
  FCHA_REGISTRO :: jsval
  DEPARTAMENTO :: jsval
  PROVINCIA :: jsval
  DISTRITO :: jsval
  DIRECCION :: jsval
  RAZON_SOCIAL :: jsval
  TIPO_ESTABLECIMIENTO :: jsval
  PRODUCTO :: jsval
  PRECIO_VENTA :: jsval
  UNIDAD_MEDIDA :: jsval

subsection \<open>The DOM and the script's state\<close>

text \<open>
  A \<open><li class=...><a class="page-link" href=... data-page=...>text</a></li>\<close> of the
  pagination container. The ellipsis has neither \<open>href\<close> nor \<open>data-page\<close>.
\<close>

record page_item =
  li_class :: string
  href :: "string option"
  data_page :: "string option"
  link_text :: string

text \<open>
  A drop-down \<open><select>\<close> (no \<open>multiple\<close>, display size 1): its options as (text,
  value) pairs and its \<open>selectedIndex\<close>, which is \<open>-1\<close> when no option is selected.
  \<open>select.value\<close> reads the value of the selected option, and the empty string when
  none is selected.
\<close>

record select =
  sel_options :: "(string \<times> string) list"
  selectedIndex :: int

definition sel_value :: "select \<Rightarrow> string" where
  "sel_value sl =
     (if 0 \<le> selectedIndex sl \<and> selectedIndex sl < int (length (sel_options sl))
      then snd (sel_options sl ! nat (selectedIndex sl)) else [])"

datatype js_error = TypeError | NetworkError | Error string

datatype request = GET string

text \<open>
  The table body is modelled by the rows its \<open>innerHTML\<close> denotes: one list of ten cell
  texts for each \<open><tr>\<close>.
\<close>

record state =
  currentData :: "item list"
  currentPage :: int
  totalPages :: int
  loading_hidden :: bool
  tbody :: "string list list option"
  pagination :: "page_item list option"
  pagination_info :: "string option"
  departamentoSelect :: "select option"
  provinciaSelect :: "select option"
  distritoSelect :: "select option"
  tipoEstablecimientoSelect :: "select option"
  alerts :: "string list"
  console_errors :: "js_error list"
  requests :: "request list"

datatype completion = Done state | Threw js_error state

fun state_of :: "completion \<Rightarrow> state" where
  "state_of (Done s) = s"
| "state_of (Threw e s) = s"

definition itemsPerPage :: int where
  "itemsPerPage = 10"

definition showLoading :: "state \<Rightarrow> state" where
  "showLoading s = s\<lparr>loading_hidden := False\<rparr>"

definition hideLoading :: "state \<Rightarrow> state" where
  "hideLoading s = s\<lparr>loading_hidden := True\<rparr>"

subsection \<open>renderTable\<close>

text \<open>
  \<open>Array.prototype.slice(start, end)\<close>: a negative bound counts from the end, both
  bounds are clamped to the array, and an empty range gives the empty array.
\<close>

definition slice :: "'a list \<Rightarrow> int \<Rightarrow> int \<Rightarrow> 'a list" where
  "slice xs start end =
     (let len = int (length xs);
          k = (if start < 0 then max (len + start) 0 else min start len);
          final = (if end < 0 then max (len + end) 0 else min end len)
      in take (nat (final - k)) (drop (nat k) xs))"

text \<open>\<open>${v || ''}\<close> in a template.\<close>

definition cell :: "jsval \<Rightarrow> string" where
  "cell v = (if truthy v then toStr v else [])"

definition row :: "item \<Rightarrow> string list" where
  "row it =
     [cell (FCHA_REGISTRO it), cell (DEPARTAMENTO it), cell (PROVINCIA it), cell (DISTRITO it),
      cell (DIRECCION it), cell (RAZON_SOCIAL it), cell (TIPO_ESTABLECIMIENTO it),
      cell (PRODUCTO it), cell (PRECIO_VENTA it), cell (UNIDAD_MEDIDA it)]"

definition renderTable :: "state \<Rightarrow> state" where
  "renderTable s =
     (case tbody s of
        None \<Rightarrow> s
      | Some _ \<Rightarrow>
          (let start = (currentPage s - 1) * itemsPerPage;
               end = start + itemsPerPage;
               pageData = slice (currentData s) start end
           in s\<lparr>tbody := Some (map row pageData)\<rparr>))"

subsection \<open>updatePagination\<close>

text \<open>
  \<open>Math.ceil(a / b)\<close> for whole \<open>a\<close> and positive whole \<open>b\<close>; \<open>div\<close> on \<open>int\<close>
  rounds down.
\<close>

definition math_ceil_div :: "int \<Rightarrow> int \<Rightarrow> int" where
  "math_ceil_div a b = - ((- a) div b)"

definition prev_link :: "int \<Rightarrow> page_item" where
  "prev_link cp =
     \<lparr>li_class = ''page-item '' @ (if cp = 1 then ''disabled'' else ''''),
      href = Some ''#'', data_page = Some (string_of_int (cp - 1)), link_text = ''Anterior''\<rparr>"

definition number_link :: "int \<Rightarrow> int \<Rightarrow> page_item" where
  "number_link cp i =
     \<lparr>li_class = ''page-item '' @ (if i = cp then ''active'' else ''''),
      href = Some ''#'', data_page = Some (string_of_int i), link_text = string_of_int i\<rparr>"

definition ellipsis :: page_item where
  "ellipsis =
     \<lparr>li_class = ''page-item disabled'', href = None, data_page = None, link_text = ''...''\<rparr>"

definition next_link :: "int \<Rightarrow> int \<Rightarrow> page_item" where
  "next_link cp tp =
     \<lparr>li_class = ''page-item '' @ (if cp = tp then ''disabled'' else ''''),
      href = Some ''#'', data_page = Some (string_of_int (cp + 1)), link_text = ''Siguiente''\<rparr>"

text \<open>The \<open>for (let i = 1; i <= totalPages; i++)\<close> loop, entered at \<open>i\<close>.\<close>

function page_loop :: "int \<Rightarrow> int \<Rightarrow> int \<Rightarrow> page_item list" where
  "page_loop i tp cp =
     (if i \<le> tp then
        (if i = 1 \<or> i = tp \<or> (i \<ge> cp - 2 \<and> i \<le> cp + 2) then [number_link cp i]
         else if i = cp - 3 \<or> i = cp + 3 then [ellipsis]
         else []) @ page_loop (i + 1) tp cp
      else [])"
  by pat_completeness auto
termination
  by (relation "measure (\<lambda>(i, tp, cp). nat (tp + 1 - i))") auto

declare page_loop.simps [simp del]

definition paginationHTML :: "int \<Rightarrow> int \<Rightarrow> page_item list" where
  "paginationHTML cp tp = prev_link cp # page_loop 1 tp cp @ [next_link cp tp]"

definition info_text :: "int \<Rightarrow> int \<Rightarrow> int \<Rightarrow> string" where
  "info_text startItem endItem n =
     ''Mostrando '' @ string_of_int startItem @ '' a '' @ string_of_int endItem @
     '' de '' @ string_of_int n @ '' registros''"

text \<open>
  \<open>updatePagination\<close> returns early without the container or with no data. It then
  writes \<open>paginationInfo.textContent\<close> with no test of \<open>paginationInfo\<close>: on \<open>null\<close>
  that is a \<open>TypeError\<close>, thrown after \<open>totalPages\<close> was assigned.
\<close>

definition updatePagination :: "state \<Rightarrow> completion" where
  "updatePagination s =
     (case pagination s of
        None \<Rightarrow> Done s
      | Some _ \<Rightarrow>
          if length (currentData s) = 0 then Done s
          else
            (let s1 = s\<lparr>totalPages := math_ceil_div (int (length (currentData s))) itemsPerPage\<rparr>;
                 startItem = (currentPage s1 - 1) * itemsPerPage + 1;
                 endItem = min (currentPage s1 * itemsPerPage) (int (length (currentData s1)))
             in case pagination_info s1 of
                  None \<Rightarrow> Threw TypeError s1
                | Some _ \<Rightarrow>
                    Done (s1\<lparr>pagination_info :=
                                Some (info_text startItem endItem (int (length (currentData s1)))),
                              pagination := Some (paginationHTML (currentPage s1) (totalPages s1))\<rparr>)))"

subsection \<open>The click listener of the page links\<close>

text \<open>
  \<open>parseInt(string)\<close> with no radix: leading white space is skipped (here the ASCII
  white space), a sign is read, a \<open>0x\<close> or \<open>0X\<close> prefix selects radix 16, and the
  longest prefix of digits is the value; with no digit the result is \<open>NaN\<close>, here
  \<open>None\<close>.
\<close>

definition is_space :: "char \<Rightarrow> bool" where
  "is_space c = (of_char c \<in> set [9, 10, 11, 12, 13, 32 :: nat])"

definition digit_val :: "char \<Rightarrow> nat option" where
  "digit_val c =
     (let n = of_char c :: nat
      in if 48 \<le> n \<and> n \<le> 57 then Some (n - 48)
         else if 97 \<le> n \<and> n \<le> 122 then Some (n - 87)
         else if 65 \<le> n \<and> n \<le> 90 then Some (n - 55)
         else None)"

definition is_radix_digit :: "nat \<Rightarrow> char \<Rightarrow> bool" where
  "is_radix_digit R c = (case digit_val c of None \<Rightarrow> False | Some d \<Rightarrow> d < R)"

definition digits_value :: "nat \<Rightarrow> string \<Rightarrow> nat" where
  "digits_value R Z = foldl (\<lambda>acc c. case digit_val c of None \<Rightarrow> acc | Some d \<Rightarrow> acc * R + d) 0 Z"

definition parseInt :: "string \<Rightarrow> int option" where
  "parseInt str =
     (let S = dropWhile is_space str;
          sign = (if S \<noteq> [] \<and> hd S = CHR ''-'' then - 1 else 1 :: int);
          S1 = (if S \<noteq> [] \<and> (hd S = CHR ''+'' \<or> hd S = CHR ''-'') then tl S else S);
          hex = (take 2 S1 = ''0x'' \<or> take 2 S1 = ''0X'');
          R = (if hex then 16 else 10);
          S2 = (if hex then drop 2 S1 else S1);
          Z = takeWhile (is_radix_digit R) S2
      in if Z = [] then None else Some (sign * int (digits_value R Z)))"

text \<open>\<open>e.target.dataset.page\<close>: \<open>undefined\<close> when the link has no \<open>data-page\<close>.\<close>

definition dataset_page :: "page_item \<Rightarrow> jsval" where
  "dataset_page target = (case data_page target of None \<Rightarrow> JUndefined | Some v \<Rightarrow> JString v)"

text \<open>The listener that \<open>updatePagination\<close> adds to every link, run on a click on \<open>target\<close>.\<close>

definition page_link_click :: "page_item \<Rightarrow> state \<Rightarrow> completion" where
  "page_link_click target s =
     (case parseInt (toStr (dataset_page target)) of
        None \<Rightarrow> Done s
      | Some newPage \<Rightarrow>
          if newPage > 0 \<and> newPage \<le> totalPages s
          then updatePagination (renderTable (s\<lparr>currentPage := newPage\<rparr>))
          else Done s)"

subsection \<open>The establishment-type listener\<close>

text \<open>The \<open>change\<close> listener of \<open>#tipoEstablecimiento\<close>; \<open>tipo\<close> is \<open>e.target.value\<close>.\<close>

definition tipoEstablecimiento_change :: "string \<Rightarrow> state \<Rightarrow> completion" where
  "tipoEstablecimiento_change tipo s =
     (let s1 = (if tipo \<noteq> []
                then s\<lparr>currentData :=
                         filter (\<lambda>it. TIPO_ESTABLECIMIENTO it = JString tipo) (currentData s)\<rparr>
                else s);
          s2 = s1\<lparr>currentPage := 1\<rparr>
      in updatePagination (renderTable s2))"

subsection \<open>updateFilterOptions and updateSelect\<close>

text \<open>\<open>[...new Set(xs)]\<close>: the elements of \<open>xs\<close> in order of first occurrence.\<close>

fun set_add_all :: "'a list \<Rightarrow> 'a list \<Rightarrow> 'a list" where
  "set_add_all seen [] = seen"
| "set_add_all seen (x # xs) = set_add_all (if x \<in> set seen then seen else seen @ [x]) xs"

definition new_Set :: "'a list \<Rightarrow> 'a list" where
  "new_Set xs = set_add_all [] xs"

text \<open>
  \<open>Array.prototype.sort()\<close> with no comparator: \<open>undefined\<close> goes last, the other
  elements are ordered by their \<open>ToString\<close>, compared code unit by code unit; the sort is
  stable.
\<close>

definition array_sort :: "jsval list \<Rightarrow> jsval list" where
  "array_sort xs =
     sort_key toStr (filter (\<lambda>v. v \<noteq> JUndefined) xs) @ filter (\<lambda>v. v = JUndefined) xs"

text \<open>
  \<open>new Option(text, value)\<close> makes an option that is not selected. \<open>select.add\<close>
  appends it; a drop-down with no selected option then selects its first option, and one
  with a selected option keeps it. The setter of \<open>select.value\<close> deselects every option
  and selects the first option with the given value; when no option has it, none is
  selected, so that \<open>selectedIndex\<close> is \<open>-1\<close> and \<open>select.value\<close> reads the empty
  string. Assigning \<open>innerHTML\<close> one option leaves that option selected.
\<close>

definition new_Option :: "jsval \<Rightarrow> jsval \<Rightarrow> string \<times> string" where
  "new_Option text v = (toStr text, toStr v)"

definition select_add :: "select \<Rightarrow> string \<times> string \<Rightarrow> select" where
  "select_add sl opt =
     sl\<lparr>sel_options := sel_options sl @ [opt],
        selectedIndex := (if selectedIndex sl < 0 then 0 else selectedIndex sl)\<rparr>"

fun first_index :: "('a \<Rightarrow> bool) \<Rightarrow> 'a list \<Rightarrow> int" where
  "first_index P [] = - 1"
| "first_index P (x # xs) =
     (if P x then 0 else (let i = first_index P xs in if i < 0 then - 1 else i + 1))"

definition set_value :: "select \<Rightarrow> string \<Rightarrow> select" where
  "set_value sl v = sl\<lparr>selectedIndex := first_index (\<lambda>opt. snd opt = v) (sel_options sl)\<rparr>"

definition updateSelect :: "select option \<Rightarrow> jsval list \<Rightarrow> select option" where
  "updateSelect sel opts =
     (case sel of
        None \<Rightarrow> None
      | Some sl \<Rightarrow>
          (let currentValue = sel_value sl;
               sl1 = \<lparr>sel_options = [(''Todos'', [])], selectedIndex = 0\<rparr>;
               sl2 = foldl (\<lambda>acc opt. select_add acc (new_Option opt opt)) sl1 (array_sort opts)
           in Some (set_value sl2 currentValue)))"

definition updateFilterOptions :: "state \<Rightarrow> state" where
  "updateFilterOptions s =
     (let departamentos = new_Set (filter truthy (map DEPARTAMENTO (currentData s)));
          provincias = new_Set (filter truthy (map PROVINCIA (currentData s)));
          distritos = new_Set (filter truthy (map DISTRITO (currentData s)));
          tiposEstablecimiento = new_Set (filter truthy (map TIPO_ESTABLECIMIENTO (currentData s)))
      in s\<lparr>departamentoSelect := updateSelect (departamentoSelect s) departamentos,
            provinciaSelect := updateSelect (provinciaSelect s) provincias,
            distritoSelect := updateSelect (distritoSelect s) distritos,
            tipoEstablecimientoSelect :=
              updateSelect (tipoEstablecimientoSelect s) tiposEstablecimiento\<rparr>)"

subsection \<open>fetchData\<close>

text \<open>
  \<open>URLSearchParams.prototype.toString\<close>: the \<open>application/x-www-form-urlencoded\<close>
  serialisation of the (name, value) pairs, byte by byte.
\<close>

definition hex_char :: "nat \<Rightarrow> char" where
  "hex_char d = ''0123456789ABCDEF'' ! d"

definition form_encode_byte :: "char \<Rightarrow> string" where
  "form_encode_byte c =
     (let n = of_char c :: nat
      in if n = 32 then ''+''
         else if (48 \<le> n \<and> n \<le> 57) \<or> (65 \<le> n \<and> n \<le> 90) \<or> (97 \<le> n \<and> n \<le> 122) \<or>
                 c \<in> set ''*-._'' then [c]
         else [CHR ''%'', hex_char (n div 16), hex_char (n mod 16)])"

definition form_encode :: "string \<Rightarrow> string" where
  "form_encode str = concat (map form_encode_byte str)"

fun join_amp :: "string list \<Rightarrow> string" where
  "join_amp [] = []"
| "join_amp [x] = x"
| "join_amp (x # y # ys) = x @ ''&'' @ join_amp (y # ys)"

definition params_toString :: "(string \<times> string) list \<Rightarrow> string" where
  "params_toString params = join_amp (map (\<lambda>(k, v). form_encode k @ ''='' @ form_encode v) params)"

text \<open>The argument of \<open>fetchData\<close>; a key that the object lacks reads \<open>undefined\<close>.\<close>

record filters =
  filter_departamento :: jsval
  filter_provincia :: jsval
  filter_distrito :: jsval

definition no_filters :: filters where
  "no_filters =
     \<lparr>filter_departamento = JUndefined, filter_provincia = JUndefined,
      filter_distrito = JUndefined\<rparr>"

definition query_params :: "filters \<Rightarrow> (string \<times> string) list" where
  "query_params f =
     (let params = [];
          params = (if truthy (filter_departamento f)
                    then params @ [(''departamento'', toStr (filter_departamento f))] else params);
          params = (if truthy (filter_provincia f)
                    then params @ [(''provincia'', toStr (filter_provincia f))] else params);
          params = (if truthy (filter_distrito f)
                    then params @ [(''distrito'', toStr (filter_distrito f))] else params)
      in params)"

definition request_url :: "filters \<Rightarrow> string" where
  "request_url f =
     (let url = ''/.netlify/functions/api/api/precios'';
          params = query_params f
      in if params_toString params \<noteq> [] then url @ ''?'' @ params_toString params else url)"

text \<open>
  What \<open>await fetch(url)\<close> and \<open>await response.json()\<close> give: a rejection, or a
  response with its status and the array of records its body parses to.
\<close>

datatype response = Rejected | Response nat "item list"

definition response_ok :: "nat \<Rightarrow> bool" where
  "response_ok status = (200 \<le> status \<and> status \<le> 299)"

text \<open>\<open>fetchData\<close> up to its first \<open>await\<close>: the overlay is shown and the request leaves.\<close>

definition fetchData_start :: "filters \<Rightarrow> state \<Rightarrow> state" where
  "fetchData_start f s =
     (let s1 = showLoading s in s1\<lparr>requests := requests s1 @ [GET (request_url f)]\<rparr>)"

text \<open>The rest of the \<open>try\<close> block, once the response is there.\<close>

definition fetchData_try :: "response \<Rightarrow> state \<Rightarrow> completion" where
  "fetchData_try r s =
     (case r of
        Rejected \<Rightarrow> Threw NetworkError s
      | Response status body \<Rightarrow>
          if \<not> response_ok status then Threw (Error ''Error al obtener los datos'') s
          else
            (let s1 = s\<lparr>currentData := body\<rparr>;
                 s2 = s1\<lparr>currentPage := 1\<rparr>;
                 s3 = renderTable s2
             in case updatePagination s3 of
                  Threw e s4 \<Rightarrow> Threw e s4
                | Done s4 \<Rightarrow> Done (updateFilterOptions s4)))"

definition alert_message :: string where
  "alert_message = ''Error al cargar los datos. Por favor, intente nuevamente.''"

text \<open>\<open>try\<close>, \<open>catch\<close> and \<open>finally\<close>: \<open>fetchData\<close> from the response on.\<close>

definition fetchData_resume :: "response \<Rightarrow> state \<Rightarrow> state" where
  "fetchData_resume r s =
     hideLoading
       (case fetchData_try r s of
          Done s1 \<Rightarrow> s1
        | Threw e s1 \<Rightarrow>
            s1\<lparr>console_errors := console_errors s1 @ [e], alerts := alerts s1 @ [alert_message]\<rparr>)"

text \<open>A whole call of \<open>fetchData\<close> with nothing running between request and response.\<close>

definition fetchData :: "filters \<Rightarrow> response \<Rightarrow> state \<Rightarrow> state" where
  "fetchData f r s = fetchData_resume r (fetchData_start f s)"

subsection \<open>The listeners of the region selectors and the start of the page\<close>

text \<open>
  The three region listeners have the same body. The object literal reads \<open>.value\<close> of
  the three \<open>getElementById\<close> results in turn, with no test for \<open>null\<close>, before
  \<open>fetchData\<close> is called.
\<close>

definition region_change :: "state \<Rightarrow> completion" where
  "region_change s =
     (case departamentoSelect s of
        None \<Rightarrow> Threw TypeError s
      | Some d \<Rightarrow>
          (case provinciaSelect s of
             None \<Rightarrow> Threw TypeError s
           | Some p \<Rightarrow>
               (case distritoSelect s of
                  None \<Rightarrow> Threw TypeError s
                | Some t \<Rightarrow>
                    Done (fetchData_start
                           \<lparr>filter_departamento = JString (sel_value d),
                            filter_provincia = JString (sel_value p),
                            filter_distrito = JString (sel_value t)\<rparr> s))))"

datatype selector_id = Departamento | Provincia | Distrito | TipoEstablecimiento

fun getElementById :: "state \<Rightarrow> selector_id \<Rightarrow> select option" where
  "getElementById s Departamento = departamentoSelect s"
| "getElementById s Provincia = provinciaSelect s"
| "getElementById s Distrito = distritoSelect s"
| "getElementById s TipoEstablecimiento = tipoEstablecimientoSelect s"

text \<open>
  \<open>getElementById(id)?.addEventListener('change', ...)\<close> four times: the selectors that
  get a listener. The optional call cannot throw.
\<close>

definition addEventListeners :: "state \<Rightarrow> selector_id list" where
  "addEventListeners s =
     filter (\<lambda>i. getElementById s i \<noteq> None) [Departamento, Provincia, Distrito, TipoEstablecimiento]"

text \<open>
  The variables as the \<open>DOMContentLoaded\<close> listener declares them, over the page's DOM,
  and the first \<open>fetchData()\<close>.
\<close>

definition initial_state ::
  "string list list option \<Rightarrow> page_item list option \<Rightarrow> string option \<Rightarrow>
   select option \<Rightarrow> select option \<Rightarrow> select option \<Rightarrow> select option \<Rightarrow> state" where
  "initial_state tb pg pinfo depSel provSel distSel tipoSel =
     \<lparr>currentData = [], currentPage = 1, totalPages = 0, loading_hidden = True,
      tbody = tb, pagination = pg, pagination_info = pinfo,
      departamentoSelect = depSel, provinciaSelect = provSel, distritoSelect = distSel,
      tipoEstablecimientoSelect = tipoSel,
      alerts = [], console_errors = [], requests = []\<rparr>"

definition DOMContentLoaded :: "state \<Rightarrow> state" where
  "DOMContentLoaded s = fetchData_start no_filters s"

subsection \<open>The server adapters\<close>

text \<open>
  \<open>src/api/api.js\<close> hands \<open>createRequestHandler\<close> the application and a callback that
  sets three headers on the response object. The handler at the end of
  \<open>src/static/script.js\<close> returns what \<open>Mangum\<close> makes of the application's answer.
  \<open>createRequestHandler\<close> and \<open>Mangum\<close> are libraries outside the repository and stay
  parameters.

  The names of the headers of a response do not distinguish upper and lower case:
  \<open>res.setHeader\<close> and \<open>res.getHeader\<close> go by the name in lower case, and setting a
  header replaces the value it had under any spelling. The headers are a map from
  lower-case names to values.
\<close>

definition lower_char :: "char \<Rightarrow> char" where
  "lower_char c =
     (let n = of_char c :: nat in if 65 \<le> n \<and> n \<le> 90 then char_of (n + 32) else c)"

definition toLowerCase :: "string \<Rightarrow> string" where
  "toLowerCase str = map lower_char str"

record http_response =
  status_code :: nat
  headers :: "string \<rightharpoonup> string"
  body_text :: string

definition setHeader :: "string \<Rightarrow> string \<Rightarrow> http_response \<Rightarrow> http_response" where
  "setHeader name v res = res\<lparr>headers := (headers res)(toLowerCase name \<mapsto> v)\<rparr>"

definition getHeader :: "string \<Rightarrow> http_response \<Rightarrow> string option" where
  "getHeader name res = headers res (toLowerCase name)"

definition callback :: "'req \<Rightarrow> http_response \<Rightarrow> http_response" where
  "callback req res =
     setHeader ''Access-Control-Allow-Headers'' ''Content-Type''
       (setHeader ''Access-Control-Allow-Methods'' ''GET, POST, OPTIONS''
         (setHeader ''Access-Control-Allow-Origin'' ''*'' res))"

definition api_handler ::
  "('app \<Rightarrow> ('req \<Rightarrow> http_response \<Rightarrow> http_response) \<Rightarrow> 'h) \<Rightarrow> 'app \<Rightarrow> 'h" where
  "api_handler createRequestHandler app = createRequestHandler app callback"

definition exports_handler ::
  "('app \<Rightarrow> 'event \<Rightarrow> 'context \<Rightarrow> http_response) \<Rightarrow> 'app \<Rightarrow> 'event \<Rightarrow> 'context \<Rightarrow> http_response" where
  "exports_handler Mangum app event context = (let mangum = Mangum app in mangum event context)"

text \<open>The three CORS headers are on a response.\<close>

definition cors_attached :: "http_response \<Rightarrow> bool" where
  "cors_attached res =
     (getHeader ''Access-Control-Allow-Origin'' res = Some ''*'' \<and>
      getHeader ''Access-Control-Allow-Methods'' res = Some ''GET, POST, OPTIONS'' \<and>
      getHeader ''Access-Control-Allow-Headers'' res = Some ''Content-Type'')"

subsection \<open>Readings of the model\<close>

text \<open>What a completion threw, if anything.\<close>

fun thrown :: "completion \<Rightarrow> js_error option" where
  "thrown (Done s) = None"
| "thrown (Threw e s) = Some e"

text \<open>
  The items that the pagination container holds; among them the page-number links, which
  stand between the "Anterior" item and the "Siguiente" item; and the page numbers that
  the links of a list lead to, as the click listener reads them.
\<close>

definition rendered_links :: "state \<Rightarrow> page_item list" where
  "rendered_links s = (case pagination s of None \<Rightarrow> [] | Some items \<Rightarrow> items)"

definition page_number_links :: "page_item list \<Rightarrow> page_item list" where
  "page_number_links items = butlast (tl items)"

definition link_targets :: "page_item list \<Rightarrow> int list" where
  "link_targets items = List.map_filter (\<lambda>l. parseInt (toStr (dataset_page l))) items"

text \<open>
  The fetches that fail, by the two \<open>throw\<close> sites of \<open>fetchData\<close>: \<open>fetch\<close> rejects, or
  \<open>response.ok\<close> is false; and the error each one throws.
\<close>

fun failed :: "response \<Rightarrow> bool" where
  "failed Rejected = True"
| "failed (Response status body) = (\<not> response_ok status)"

fun rejection :: "response \<Rightarrow> js_error" where
  "rejection Rejected = NetworkError"
| "rejection (Response status body) = Error ''Error al obtener los datos''"

text \<open>
  The field that \<open>updateFilterOptions\<close> pairs with each selector, and the values it
  hands to \<open>updateSelect\<close> for it, as \<open>updateSelect\<close> has sorted them.
\<close>

fun selector_field :: "selector_id \<Rightarrow> item \<Rightarrow> jsval" where
  "selector_field Departamento = DEPARTAMENTO"
| "selector_field Provincia = PROVINCIA"
| "selector_field Distrito = DISTRITO"
| "selector_field TipoEstablecimiento = TIPO_ESTABLECIMIENTO"

definition selector_values :: "selector_id \<Rightarrow> item list \<Rightarrow> jsval list" where
  "selector_values i records =
     array_sort (new_Set (filter truthy (map (selector_field i) records)))"

subsection \<open>Sample records, pages and responses\<close>

definition lima :: item where
  "lima =
     \<lparr>FCHA_REGISTRO = JString ''2024-01-15'', DEPARTAMENTO = JString ''LIMA'',
      PROVINCIA = JString ''LIMA'', DISTRITO = JString ''MIRAFLORES'',
      DIRECCION = JString ''AV. LARCO 100'', RAZON_SOCIAL = JString ''GRIFO SUR'',
      TIPO_ESTABLECIMIENTO = JString ''GRIFO'', PRODUCTO = JString ''DIESEL B5'',
      PRECIO_VENTA = JNumber 15, UNIDAD_MEDIDA = JNull\<rparr>"

definition farmacia :: item where
  "farmacia =
     \<lparr>FCHA_REGISTRO = JString ''2024-01-16'', DEPARTAMENTO = JString ''CUSCO'',
      PROVINCIA = JString ''CUSCO'', DISTRITO = JString ''WANCHAQ'',
      DIRECCION = JUndefined, RAZON_SOCIAL = JString ''BOTICA ANDINA'',
      TIPO_ESTABLECIMIENTO = JString ''FARMACIA'', PRODUCTO = JString ''GLP'',
      PRECIO_VENTA = JNumber 0, UNIDAD_MEDIDA = JString []\<rparr>"

text \<open>
  A page with table body, pagination container and info element and no selector, holding
  15 records; and the same page after \<open>renderTable\<close> and \<open>updatePagination\<close>.
\<close>

definition fifteen :: state where
  "fifteen =
     (initial_state (Some []) (Some []) (Some []) None None None None)
       \<lparr>currentData := replicate 15 lima\<rparr>"

definition fifteen_rendered :: state where
  "fifteen_rendered = state_of (updatePagination (renderTable fifteen))"

text \<open>The same page holding 90 records, on page 5.\<close>

definition ninety :: state where
  "ninety =
     (initial_state (Some []) (Some []) (Some []) None None None None)
       \<lparr>currentData := replicate 90 lima, currentPage := 5\<rparr>"

text \<open>
  A page with every element, the four selectors set, and 25 records of which four are of
  type FARMACIA; and the same page with the three region selectors on "Todos".
\<close>

definition twentyfive :: state where
  "twentyfive =
     (initial_state (Some []) (Some []) (Some [])
        (Some \<lparr>sel_options = [(''Todos'', []), (''LIMA'', ''LIMA'')], selectedIndex = 1\<rparr>)
        (Some \<lparr>sel_options = [(''Todos'', [])], selectedIndex = 0\<rparr>)
        (Some \<lparr>sel_options = [(''Todos'', []), (''SAN ISIDRO'', ''SAN ISIDRO'')],
               selectedIndex = 1\<rparr>)
        (Some \<lparr>sel_options = [(''Todos'', []), (''FARMACIA'', ''FARMACIA'')],
               selectedIndex = 1\<rparr>))
       \<lparr>currentData :=
          replicate 10 lima @ [farmacia, farmacia] @ replicate 11 lima @ [farmacia, farmacia]\<rparr>"

definition no_region :: state where
  "no_region =
     twentyfive
       \<lparr>departamentoSelect := Some \<lparr>sel_options = [(''Todos'', [])], selectedIndex = 0\<rparr>,
        distritoSelect := Some \<lparr>sel_options = [(''Todos'', [])], selectedIndex = 0\<rparr>\<rparr>"

text \<open>
  The page of 25 records after the establishment type FARMACIA was chosen; and the page
  of 15 records after the type BODEGA, which no record has, was chosen.
\<close>

definition four_farmacias :: state where
  "four_farmacias = state_of (tipoEstablecimiento_change ''FARMACIA'' twentyfive)"

definition none_left :: state where
  "none_left = state_of (tipoEstablecimiento_change ''BODEGA'' fifteen_rendered)"

text \<open>A page with a pagination container and no info element, holding one record.\<close>

definition no_info :: state where
  "no_info =
     (initial_state (Some []) (Some []) None None None None None)\<lparr>currentData := [lima]\<rparr>"

section \<open>Properties of the model\<close>

subsection \<open>Arithmetic, slices and the page loop\<close>

lemma math_ceil_div_ceiling: "math_ceil_div a b = \<lceil>real_of_int a / real_of_int b\<rceil>"
  by (simp add: math_ceil_div_def ceiling_divide_eq_div)

lemma slice_nth:
  assumes "0 \<le> a" and "0 \<le> b"
  shows "slice xs a b = map (\<lambda>i. xs ! nat i) [a .. min b (int (length xs)) - 1]"
proof (rule nth_equalityI)
  show "length (slice xs a b) = length (map (\<lambda>i. xs ! nat i) [a .. min b (int (length xs)) - 1])"
    using assms by (auto simp: slice_def Let_def)
next
  fix j assume "j < length (slice xs a b)"
  then have j: "int j < min b (int (length xs)) - a" and a: "a < int (length xs)"
    using assms by (auto simp: slice_def Let_def split: if_splits)
  then have "slice xs a b ! j = xs ! (nat a + j)"
    using assms by (simp add: slice_def Let_def min_def)
  moreover have "map (\<lambda>i. xs ! nat i) [a .. min b (int (length xs)) - 1] ! j = xs ! nat (a + int j)"
  proof -
    have le: "a + int j \<le> min b (int (length xs)) - 1" using j by linarith
    have "j < length [a .. min b (int (length xs)) - 1]" using j by simp
    then show ?thesis using nth_upto [OF le] by simp
  qed
  ultimately show "slice xs a b ! j = map (\<lambda>i. xs ! nat i) [a .. min b (int (length xs)) - 1] ! j"
    using assms by (simp add: nat_add_distrib)
qed

lemma page_loop_concat:
  "page_loop i tp cp =
     concat (map (\<lambda>i. if i = 1 \<or> i = tp \<or> \<bar>i - cp\<bar> \<le> 2 then [number_link cp i]
                       else if i = cp - 3 \<or> i = cp + 3 then [ellipsis] else []) [i..tp])"
proof (induction i tp cp rule: page_loop.induct)
  case (1 i tp cp)
  show ?case
  proof (cases "i \<le> tp")
    case True
    have w: "(i \<ge> cp - 2 \<and> i \<le> cp + 2) = (\<bar>i - cp\<bar> \<le> 2)" by linarith
    from True 1 show ?thesis
      by (subst page_loop.simps, subst upto_rec1) (simp_all add: w)
  next
    case False
    then show ?thesis by (subst page_loop.simps) simp
  qed
qed

subsection \<open>Pages partition the records\<close>

lemma renderTable_eq:
  "renderTable s =
     s\<lparr>tbody := (case tbody s of None \<Rightarrow> None
                  | Some _ \<Rightarrow> Some (map row (slice (currentData s) ((currentPage s - 1) * 10)
                                               ((currentPage s - 1) * 10 + 10))))\<rparr>"
  by (cases "tbody s") (simp_all add: renderTable_def Let_def itemsPerPage_def)

lemma updatePagination_Done:
  assumes "pagination s = Some pg" and "currentData s \<noteq> []" and "pagination_info s = Some pinfo"
  shows "updatePagination s =
           Done (s\<lparr>totalPages := math_ceil_div (int (length (currentData s))) 10,
                   pagination_info :=
                     Some (info_text ((currentPage s - 1) * 10 + 1)
                             (min (currentPage s * 10) (int (length (currentData s))))
                             (int (length (currentData s)))),
                   pagination :=
                     Some (paginationHTML (currentPage s)
                             (math_ceil_div (int (length (currentData s))) 10))\<rparr>)"
  using assms by (simp add: updatePagination_def Let_def itemsPerPage_def)

lemma page_rows_count:
  assumes "1 \<le> N" and "1 \<le> p" and "p \<le> math_ceil_div N 10"
  shows "int (length [10 * (p - 1) .. min (10 * p) N - 1]) =
           (if p < math_ceil_div N 10 then 10 else N - 10 * (math_ceil_div N 10 - 1))"
  using assms unfolding math_ceil_div_def by (simp add: min_def) presburger

text \<open>
  C1. With at least one record loaded, a page number \<open>p\<close> between 1 and
  \<open>\<lceil>N / 10\<rceil>\<close>, and the table body, pagination container and info element in the
  page: \<open>renderTable\<close> then \<open>updatePagination\<close> return normally, \<open>totalPages\<close> is
  \<open>\<lceil>N / 10\<rceil>\<close>, the table shows the rows of the records at indices \<open>10 * (p - 1)\<close> to
  \<open>min (10 * p) N - 1\<close> (ten of them on every page but the last, the remainder on the
  last), and the info text is "Mostrando \<open>10 * (p - 1) + 1\<close> a \<open>min (10 * p) N\<close> de
  \<open>N\<close> registros".
\<close>

theorem C1_pages_partition_records:
  assumes "currentData s = records" and "int (length records) = N" and "1 \<le> N"
    and "currentPage s = p" and "1 \<le> p" and "p \<le> \<lceil>real_of_int N / 10\<rceil>"
    and "tbody s \<noteq> None" and "pagination s \<noteq> None" and "pagination_info s \<noteq> None"
  shows "thrown (updatePagination (renderTable s)) = None \<and>
         totalPages (state_of (updatePagination (renderTable s))) = \<lceil>real_of_int N / 10\<rceil> \<and>
         tbody (state_of (updatePagination (renderTable s))) =
           Some (map (\<lambda>i. row (records ! nat i)) [10 * (p - 1) .. min (10 * p) N - 1]) \<and>
         int (length [10 * (p - 1) .. min (10 * p) N - 1]) =
           (if p < \<lceil>real_of_int N / 10\<rceil> then 10 else N - 10 * (\<lceil>real_of_int N / 10\<rceil> - 1)) \<and>
         pagination_info (state_of (updatePagination (renderTable s))) =
           Some (''Mostrando '' @ string_of_int (10 * (p - 1) + 1) @ '' a '' @
                 string_of_int (min (10 * p) N) @ '' de '' @ string_of_int N @ '' registros'')"
proof -
  obtain tb pg pinfo where dom: "tbody s = Some tb" "pagination s = Some pg"
      "pagination_info s = Some pinfo"
    using assms(7-9) by auto
  have ceil: "\<lceil>real_of_int N / 10\<rceil> = math_ceil_div N 10"
    using math_ceil_div_ceiling [of N 10] by simp
  have ne: "currentData (renderTable s) \<noteq> []"
    using assms(1-3) by (auto simp: renderTable_eq)
  have up: "updatePagination (renderTable s) =
      Done ((renderTable s)\<lparr>totalPages := math_ceil_div N 10,
              pagination_info := Some (info_text ((p - 1) * 10 + 1) (min (p * 10) N) N),
              pagination := Some (paginationHTML p (math_ceil_div N 10))\<rparr>)"
    using updatePagination_Done [of "renderTable s" pg pinfo] ne dom assms(1,2,4)
    by (simp add: renderTable_eq)
  have sl: "slice records ((p - 1) * 10) ((p - 1) * 10 + 10) =
      map (\<lambda>i. records ! nat i) [10 * (p - 1) .. min (10 * p) N - 1]"
    using slice_nth [of "(p - 1) * 10" "(p - 1) * 10 + 10" records] assms(2,5)
    by (simp add: algebra_simps)
  have rows: "tbody (state_of (updatePagination (renderTable s))) =
      Some (map (\<lambda>i. row (records ! nat i)) [10 * (p - 1) .. min (10 * p) N - 1])"
  proof -
    have "tbody (renderTable s) =
        Some (map (\<lambda>i. row (records ! nat i)) [10 * (p - 1) .. min (10 * p) N - 1])"
      using dom assms(1,4) sl by (simp add: renderTable_eq comp_def)
    then show ?thesis by (simp add: up)
  qed
  have info: "info_text ((p - 1) * 10 + 1) (min (p * 10) N) N =
      ''Mostrando '' @ string_of_int (10 * (p - 1) + 1) @ '' a '' @
      string_of_int (min (10 * p) N) @ '' de '' @ string_of_int N @ '' registros''"
    by (simp add: info_text_def mult.commute)
  show ?thesis
    using rows page_rows_count [of N p] assms(3,5,6) info
    by (simp add: up ceil)
qed

theorem C1_pages_partition_records_witness:
  "totalPages (state_of (updatePagination (renderTable fifteen))) = 2 \<and>
   map_option length (tbody (state_of (updatePagination (renderTable fifteen)))) = Some 10 \<and>
   pagination_info (state_of (updatePagination (renderTable fifteen))) =
     Some ''Mostrando 1 a 10 de 15 registros''"
proof -
  have c: "\<lceil>real_of_int 15 / 10\<rceil> = 2" by simp
  have s: "string_of_int 1 = ''1''" "string_of_int 10 = ''10''" "string_of_int 15 = ''15''"
    by code_simp+
  show ?thesis
    using C1_pages_partition_records [of fifteen "replicate 15 lima" 15 1]
    by (simp add: fifteen_def initial_state_def c s)
qed

subsection \<open>parseInt reads back what the templates write\<close>

lemma digit_char_mem: "d < 10 \<Longrightarrow> digit_char d \<in> set ''0123456789''"
  unfolding digit_char_def by (rule nth_mem) simp

lemma digit_val_digit_char: "d < 10 \<Longrightarrow> digit_val (digit_char d) = Some d"
proof -
  assume "d < 10"
  then have "d \<in> {0, 1, 2, 3, 4, 5, 6, 7, 8, 9}"
    by auto
  then show ?thesis
    by (auto simp: digit_char_def digit_val_def)
qed

lemma decimal_digit_facts:
  assumes "c \<in> set ''0123456789''"
  shows "is_radix_digit 10 c" and "\<not> is_space c" and "c \<noteq> CHR ''-''" and "c \<noteq> CHR ''+''"
    and "c \<noteq> CHR ''x''" and "c \<noteq> CHR ''X''"
  using assms by (auto simp: is_radix_digit_def digit_val_def is_space_def)

lemma string_of_nat_digits: "set (string_of_nat n) \<subseteq> set ''0123456789''"
proof (induction n rule: string_of_nat.induct)
  case (1 n)
  show ?case
  proof (cases "n < 10")
    case True
    then show ?thesis
      using digit_char_mem [of n] by (subst string_of_nat.simps) simp
  next
    case False
    then show ?thesis
      using 1 digit_char_mem [of "n mod 10"] by (subst string_of_nat.simps) simp
  qed
qed

lemma string_of_nat_nonempty: "string_of_nat n \<noteq> []"
  by (subst string_of_nat.simps) simp

lemma digits_value_snoc:
  "digits_value R (Z @ [c]) =
     (case digit_val c of None \<Rightarrow> digits_value R Z | Some d \<Rightarrow> digits_value R Z * R + d)"
  by (simp add: digits_value_def split: option.split)

lemma digits_value_string_of_nat: "digits_value 10 (string_of_nat n) = n"
proof (induction n rule: string_of_nat.induct)
  case (1 n)
  show ?case
  proof (cases "n < 10")
    case True
    then show ?thesis
      by (subst string_of_nat.simps) (simp add: digits_value_def digit_val_digit_char)
  next
    case False
    then show ?thesis
      using 1 by (subst string_of_nat.simps) (simp add: digits_value_snoc digit_val_digit_char)
  qed
qed

lemma takeWhile_string_of_nat:
  "takeWhile (is_radix_digit 10) (string_of_nat n) = string_of_nat n"
  using string_of_nat_digits [of n] decimal_digit_facts(1)
  by (intro takeWhile_eq_all_conv [THEN iffD2]) blast

lemma string_of_nat_no_hex_prefix:
  "take 2 (string_of_nat n) \<noteq> ''0x''" "take 2 (string_of_nat n) \<noteq> ''0X''"
proof -
  have "\<And>p. take 2 (string_of_nat n) = [CHR ''0'', p] \<Longrightarrow> p \<in> set ''0123456789''"
  proof -
    fix p assume "take 2 (string_of_nat n) = [CHR ''0'', p]"
    then have "p \<in> set (take 2 (string_of_nat n))" by simp
    then have "p \<in> set (string_of_nat n)" by (rule in_set_takeD)
    then show "p \<in> set ''0123456789''" using string_of_nat_digits by blast
  qed
  then show "take 2 (string_of_nat n) \<noteq> ''0x''" "take 2 (string_of_nat n) \<noteq> ''0X''"
    using decimal_digit_facts(5,6) by blast+
qed

lemma hd_string_of_nat: "hd (string_of_nat n) \<in> set ''0123456789''"
  using string_of_nat_digits [of n] string_of_nat_nonempty [of n] hd_in_set by blast

lemma parseInt_string_of_nat: "parseInt (string_of_nat n) = Some (int n)"
proof -
  have sp: "dropWhile is_space (string_of_nat n) = string_of_nat n"
    using decimal_digit_facts(2) [OF hd_string_of_nat [of n]] string_of_nat_nonempty [of n]
    by (cases "string_of_nat n") simp_all
  show ?thesis
    unfolding parseInt_def sp Let_def
    using decimal_digit_facts(3,4) [OF hd_string_of_nat [of n]]
    by (simp add: string_of_nat_no_hex_prefix takeWhile_string_of_nat string_of_nat_nonempty
        digits_value_string_of_nat)
qed

lemma parseInt_minus_string_of_nat: "parseInt (CHR ''-'' # string_of_nat n) = Some (- int n)"
proof -
  have "\<not> is_space CHR ''-''" by (simp add: is_space_def)
  then show ?thesis
    unfolding parseInt_def Let_def
    by (simp add: string_of_nat_no_hex_prefix takeWhile_string_of_nat string_of_nat_nonempty
        digits_value_string_of_nat)
qed

lemma parseInt_string_of_int: "parseInt (string_of_int i) = Some i"
proof (cases "i < 0")
  case True
  then have "string_of_int i = CHR ''-'' # string_of_nat (nat (- i))"
    by (simp only: string_of_int_def if_True)
  then show ?thesis
    using True parseInt_minus_string_of_nat [of "nat (- i)"] by simp
next
  case False
  then have "string_of_int i = string_of_nat (nat i)"
    by (simp only: string_of_int_def if_False)
  then show ?thesis
    using False parseInt_string_of_nat [of "nat i"] by simp
qed

lemma string_of_int_inj:
  assumes "string_of_int i = string_of_int j"
  shows "i = j"
proof -
  have "Some i = parseInt (string_of_int i)"
    by (simp only: parseInt_string_of_int)
  also have "\<dots> = parseInt (string_of_int j)"
    by (simp only: assms)
  also have "\<dots> = Some j"
    by (simp only: parseInt_string_of_int)
  finally show ?thesis by simp
qed

lemma parseInt_undefined: "parseInt ''undefined'' = None"
  by (simp add: parseInt_def is_space_def is_radix_digit_def digit_val_def)

subsection \<open>The window of page links\<close>

lemma link_targets_append: "link_targets (xs @ ys) = link_targets xs @ link_targets ys"
  by (simp add: link_targets_def List.map_filter_def)

lemma link_targets_concat: "link_targets (concat xss) = concat (map link_targets xss)"
  by (induction xss) (simp_all add: link_targets_append, simp add: link_targets_def List.map_filter_def)

lemma link_targets_number_link: "link_targets [number_link cp i] = [i]"
  by (simp add: link_targets_def List.map_filter_def number_link_def dataset_page_def
      parseInt_string_of_int)

lemma link_targets_ellipsis: "link_targets [ellipsis] = []"
  by (simp add: link_targets_def List.map_filter_def ellipsis_def dataset_page_def
      parseInt_undefined)

lemma link_targets_Nil: "link_targets [] = []"
  by (simp add: link_targets_def List.map_filter_def)

lemma concat_map_if_filter: "concat (map (\<lambda>x. if P x then [x] else []) xs) = filter P xs"
  by (induction xs) simp_all

lemma link_targets_page_loop:
  "link_targets (page_loop i tp cp) = [j \<leftarrow> [i..tp]. j = 1 \<or> j = tp \<or> \<bar>j - cp\<bar> \<le> 2]"
proof -
  have "link_targets (page_loop i tp cp) =
      concat (map (\<lambda>j. if j = 1 \<or> j = tp \<or> \<bar>j - cp\<bar> \<le> 2 then [j] else []) [i..tp])"
    unfolding page_loop_concat link_targets_concat map_map comp_def
    by (rule arg_cong [where f = concat], rule map_cong)
      (simp_all add: link_targets_number_link link_targets_ellipsis link_targets_Nil)
  then show ?thesis
    by (simp only: concat_map_if_filter)
qed

lemma count_list_distinct: "distinct xs \<Longrightarrow> count_list xs x = (if x \<in> set xs then 1 else 0)"
  by (induction xs) auto

lemma concat_map_upto_Nil:
  "(\<And>i. a \<le> i \<Longrightarrow> i \<le> b \<Longrightarrow> f i = []) \<Longrightarrow> concat (map f [a..b]) = []"
  by simp

lemma concat_map_single: "(\<And>x. x \<in> set xs \<Longrightarrow> f x = [g x]) \<Longrightarrow> concat (map f xs) = map g xs"
  by (induction xs) simp_all

lemma concat_map_upto_single:
  "(\<And>i. a \<le> i \<Longrightarrow> i \<le> b \<Longrightarrow> f i = [g i]) \<Longrightarrow> concat (map f [a..b]) = map g [a..b]"
  by (rule concat_map_single) simp

lemma page_loop_explicit:
  assumes "1 \<le> tp" and "1 \<le> p" and "p \<le> tp"
  shows "page_loop 1 tp p =
     [number_link p 1] @ (if 2 \<le> p - 3 then [ellipsis] else []) @
     map (number_link p) [max 2 (p - 2) .. min (tp - 1) (p + 2)] @
     (if p + 3 \<le> tp - 1 then [ellipsis] else []) @
     (if 1 < tp then [number_link p tp] else [])"
proof -
  define f where "f = (\<lambda>i. if i = 1 \<or> i = tp \<or> \<bar>i - p\<bar> \<le> 2 then [number_link p i]
                       else if i = p - 3 \<or> i = p + 3 then [ellipsis] else [])"
  define a where "a = max 2 (p - 2)"
  define b where "b = min (tp - 1) (p + 2)"
  have loop: "page_loop 1 tp p = concat (map f [1..tp])"
    unfolding f_def by (rule page_loop_concat)
  have first: "concat (map f [1..tp]) = [number_link p 1] @ concat (map f [2..tp])"
    using assms(1) by (subst upto_rec1) (simp_all add: f_def)
  have last: "concat (map f [2..tp]) =
      concat (map f [2..tp - 1]) @ (if 1 < tp then [number_link p tp] else [])"
  proof (cases "1 < tp")
    case True
    then have "[2..tp] = [2..tp - 1] @ [tp]"
      using upto_rec2 [of 2 tp] by simp
    then show ?thesis using True by (simp add: f_def)
  next
    case False
    then show ?thesis by simp
  qed
  have split: "[2..tp - 1] = [2..a - 1] @ [a..b] @ [b + 1..tp - 1]"
  proof (cases "1 < tp")
    case True
    then have "2 \<le> a" "a \<le> b + 1" "b \<le> tp - 1"
      using assms by (auto simp: a_def b_def)
    then show ?thesis
      by (smt (verit) upto_split1 upto_split2 upto_empty append_Nil append_Nil2)
  next
    case False
    then show ?thesis using assms by (simp add: a_def b_def)
  qed
  have middle: "concat (map f [a..b]) = map (number_link p) [a..b]"
  proof (rule concat_map_upto_single)
    fix i assume "a \<le> i" and "i \<le> b"
    then show "f i = [number_link p i]" by (auto simp: f_def a_def b_def)
  qed
  have left: "concat (map f [2..a - 1]) = (if 2 \<le> p - 3 then [ellipsis] else [])"
  proof (cases "2 \<le> p - 3")
    case True
    then have "[2..a - 1] = [2..p - 4] @ [p - 3]"
      using upto_rec2 [of 2 "p - 3"] by (simp add: a_def)
    moreover have "concat (map f [2..p - 4]) = []"
    proof (rule concat_map_upto_Nil)
      fix i assume "2 \<le> i" and "i \<le> p - 4"
      then show "f i = []" using assms by (auto simp: f_def)
    qed
    moreover have "f (p - 3) = [ellipsis]"
      using True assms by (auto simp: f_def)
    ultimately show ?thesis using True by simp
  next
    case False
    then have "[2..a - 1] = []" by (simp add: a_def)
    then show ?thesis using False by simp
  qed
  have right: "concat (map f [b + 1..tp - 1]) = (if p + 3 \<le> tp - 1 then [ellipsis] else [])"
  proof (cases "p + 3 \<le> tp - 1")
    case True
    have "b + 1 = p + 3"
      using True by (simp add: b_def)
    moreover have "[p + 3..tp - 1] = (p + 3) # [p + 3 + 1..tp - 1]"
      using True by (rule upto_rec1)
    moreover have "p + 3 + 1 = p + 4"
      by simp
    ultimately have "[b + 1..tp - 1] = (p + 3) # [p + 4..tp - 1]"
      by (simp only:)
    moreover have "concat (map f [p + 4..tp - 1]) = []"
    proof (rule concat_map_upto_Nil)
      fix i assume "p + 4 \<le> i" and "i \<le> tp - 1"
      then show "f i = []" using assms by (auto simp: f_def)
    qed
    moreover have "f (p + 3) = [ellipsis]"
      using True assms by (auto simp: f_def)
    ultimately show ?thesis using True by simp
  next
    case False
    then have "[b + 1..tp - 1] = []" by (simp add: b_def)
    then show ?thesis using False by simp
  qed
  show ?thesis
    unfolding loop first last split
    by (simp add: left middle right a_def [symmetric] b_def [symmetric])
qed


lemma ellipsis_click: "page_link_click ellipsis s = Done s"
  by (simp add: page_link_click_def ellipsis_def dataset_page_def parseInt_undefined)

lemma page_number_links_paginationHTML: "page_number_links (paginationHTML cp tp) = page_loop 1 tp cp"
  by (simp add: page_number_links_def paginationHTML_def butlast_append)

lemma math_ceil_div_positive: "1 \<le> n \<Longrightarrow> 1 \<le> math_ceil_div n 10"
  unfolding math_ceil_div_def by presburger

lemma rendered_links_updatePagination:
  assumes "pagination s \<noteq> None" and "pagination_info s \<noteq> None" and "currentData s \<noteq> []"
  shows "rendered_links (state_of (updatePagination s)) =
           paginationHTML (currentPage s) (math_ceil_div (int (length (currentData s))) 10)"
    and "totalPages (state_of (updatePagination s)) =
           math_ceil_div (int (length (currentData s))) 10"
    and "pagination (state_of (updatePagination s)) =
           Some (paginationHTML (currentPage s) (math_ceil_div (int (length (currentData s))) 10))"
proof -
  obtain pg pinfo where "pagination s = Some pg" and "pagination_info s = Some pinfo"
    using assms(1,2) by auto
  from updatePagination_Done [OF this(1) assms(3) this(2)]
  show "rendered_links (state_of (updatePagination s)) =
           paginationHTML (currentPage s) (math_ceil_div (int (length (currentData s))) 10)"
    and "totalPages (state_of (updatePagination s)) =
           math_ceil_div (int (length (currentData s))) 10"
    and "pagination (state_of (updatePagination s)) =
           Some (paginationHTML (currentPage s) (math_ceil_div (int (length (currentData s))) 10))"
    by (simp_all add: rendered_links_def)
qed

text \<open>
  C2. Let \<open>updatePagination\<close> run on a page with pagination container and info element,
  with records loaded, on page \<open>p\<close>, where \<open>1 \<le> p \<le> tp\<close> and \<open>tp\<close> is the number of
  pages of the loaded records. Then \<open>totalPages\<close> is \<open>tp\<close>, at least 1, and the container
  holds: the "Anterior" item; page 1; an ellipsis if pages \<open>2..p - 3\<close> are left out; the
  pages around \<open>p\<close>; an ellipsis if pages \<open>p + 3..tp - 1\<close> are left out; the last page if
  it is not page 1; the "Siguiente" item. The page-number links between "Anterior" and
  "Siguiente" lead to exactly the pages \<open>i\<close> of \<open>[1..tp]\<close> with \<open>i = 1\<close>, \<open>i = tp\<close> or
  \<open>\<bar>i - p\<bar> \<le> 2\<close>, in order, page 1 and page \<open>tp\<close> once each. The ellipsis has no
  target and a click on it changes nothing.
\<close>

theorem C2_sliding_window:
  assumes "pagination s \<noteq> None" and "pagination_info s \<noteq> None" and "currentData s \<noteq> []"
    and "currentPage s = p"
    and "math_ceil_div (int (length (currentData s))) itemsPerPage = tp"
    and "1 \<le> p" and "p \<le> tp"
  shows "totalPages (state_of (updatePagination s)) = tp \<and> 1 \<le> tp \<and>
         pagination (state_of (updatePagination s)) =
           Some (prev_link p #
                 ([number_link p 1] @ (if 2 \<le> p - 3 then [ellipsis] else []) @
                  map (number_link p) [max 2 (p - 2) .. min (tp - 1) (p + 2)] @
                  (if p + 3 \<le> tp - 1 then [ellipsis] else []) @
                  (if 1 < tp then [number_link p tp] else [])) @
                 [next_link p tp]) \<and>
         link_targets (page_number_links (rendered_links (state_of (updatePagination s)))) =
           [i \<leftarrow> [1..tp]. i = 1 \<or> i = tp \<or> \<bar>i - p\<bar> \<le> 2] \<and>
         count_list
           (link_targets (page_number_links (rendered_links (state_of (updatePagination s))))) 1 = 1 \<and>
         count_list
           (link_targets (page_number_links (rendered_links (state_of (updatePagination s))))) tp = 1 \<and>
         href ellipsis = None \<and> data_page ellipsis = None \<and>
         (\<forall>s'. page_link_click ellipsis s' = Done s')"
proof -
  let ?shown = "[i \<leftarrow> [1..tp]. i = 1 \<or> i = tp \<or> \<bar>i - p\<bar> \<le> 2]"
  let ?s' = "state_of (updatePagination s)"
  have tp: "math_ceil_div (int (length (currentData s))) 10 = tp"
    using assms(5) by (simp add: itemsPerPage_def)
  have links: "rendered_links ?s' = paginationHTML p tp"
    using rendered_links_updatePagination(1) [OF assms(1-3)] assms(4) tp by simp
  have total: "totalPages ?s' = tp"
    using rendered_links_updatePagination(2) [OF assms(1-3)] tp by simp
  have "1 \<le> int (length (currentData s))"
    using assms(3) by (cases "currentData s") simp_all
  then have one: "1 \<le> tp"
    using math_ceil_div_positive tp by blast
  have numbers: "page_number_links (rendered_links ?s') = page_loop 1 tp p"
    unfolding links by (rule page_number_links_paginationHTML)
  have container: "pagination ?s' = Some (paginationHTML p tp)"
    using rendered_links_updatePagination(3) [OF assms(1-3)] assms(4) tp by simp
  have explicit: "pagination ?s' =
           Some (prev_link p #
                 ([number_link p 1] @ (if 2 \<le> p - 3 then [ellipsis] else []) @
                  map (number_link p) [max 2 (p - 2) .. min (tp - 1) (p + 2)] @
                  (if p + 3 \<le> tp - 1 then [ellipsis] else []) @
                  (if 1 < tp then [number_link p tp] else [])) @
                 [next_link p tp])"
    unfolding container paginationHTML_def page_loop_explicit [OF one assms(6,7)] ..
  have targets: "link_targets (page_number_links (rendered_links ?s')) = ?shown"
    unfolding numbers by (rule link_targets_page_loop)
  have d: "distinct ?shown"
    by simp
  have once: "count_list ?shown 1 = 1" "count_list ?shown tp = 1"
    using one by (simp_all add: count_list_distinct [OF d])
  have counts: "count_list (link_targets (page_number_links (rendered_links ?s'))) 1 = 1"
      "count_list (link_targets (page_number_links (rendered_links ?s'))) tp = 1"
    unfolding targets by (rule once)+
  have inert: "href ellipsis = None" "data_page ellipsis = None"
    by (simp_all add: ellipsis_def)
  from total one explicit targets counts inert ellipsis_click
  show ?thesis
    by blast
qed

lemma ninety_page:
  "pagination ninety \<noteq> None" "pagination_info ninety \<noteq> None" "currentData ninety \<noteq> []"
  "currentPage ninety = 5"
  "math_ceil_div (int (length (currentData ninety))) itemsPerPage = 9"
  by (simp_all add: ninety_def initial_state_def math_ceil_div_def itemsPerPage_def)

lemma window_5_of_9:
  "map link_text
     (prev_link 5 #
      ([number_link 5 1] @ (if (2::int) \<le> 5 - 3 then [ellipsis] else []) @
       map (number_link 5) [max 2 (5 - 2) .. min (9 - 1) (5 + 2)] @
       (if (5::int) + 3 \<le> 9 - 1 then [ellipsis] else []) @
       (if (1::int) < 9 then [number_link 5 9] else [])) @
      [next_link 5 9]) =
   [''Anterior'', ''1'', ''...'', ''3'', ''4'', ''5'', ''6'', ''7'', ''...'', ''9'', ''Siguiente'']"
  "[i \<leftarrow> [1..9]. i = 1 \<or> i = 9 \<or> \<bar>i - 5\<bar> \<le> 2] = [1, 3, 4, 5, 6, 7, 9 :: int]"
  by code_simp+

theorem C2_sliding_window_witness:
  "totalPages (state_of (updatePagination ninety)) = 9 \<and>
   map_option (map link_text) (pagination (state_of (updatePagination ninety))) =
     Some [''Anterior'', ''1'', ''...'', ''3'', ''4'', ''5'', ''6'', ''7'', ''...'', ''9'',
           ''Siguiente''] \<and>
   link_targets (page_number_links (rendered_links (state_of (updatePagination ninety)))) =
     [1, 3, 4, 5, 6, 7, 9]"
proof -
  have p: "(1::int) \<le> 5" "(5::int) \<le> 9"
    by simp_all
  note c = C2_sliding_window [OF ninety_page p]
  have a: "totalPages (state_of (updatePagination ninety)) = 9"
    by (rule c [THEN conjunct1])
  have b: "map_option (map link_text) (pagination (state_of (updatePagination ninety))) =
     Some [''Anterior'', ''1'', ''...'', ''3'', ''4'', ''5'', ''6'', ''7'', ''...'', ''9'',
           ''Siguiente'']"
    unfolding c [THEN conjunct2, THEN conjunct2, THEN conjunct1] option.map window_5_of_9(1) ..
  have t: "link_targets (page_number_links (rendered_links (state_of (updatePagination ninety)))) =
     [1, 3, 4, 5, 6, 7, 9]"
    unfolding c [THEN conjunct2, THEN conjunct2, THEN conjunct2, THEN conjunct1]
    by (rule window_5_of_9(2))
  from a b t show ?thesis
    by (intro conjI)
qed

subsection \<open>Clicks on page links\<close>

lemma updatePagination_frame:
  "currentData (state_of (updatePagination s)) = currentData s"
  "currentPage (state_of (updatePagination s)) = currentPage s"
  "tbody (state_of (updatePagination s)) = tbody s"
  "requests (state_of (updatePagination s)) = requests s"
  "alerts (state_of (updatePagination s)) = alerts s"
  "console_errors (state_of (updatePagination s)) = console_errors s"
  "loading_hidden (state_of (updatePagination s)) = loading_hidden s"
  "departamentoSelect (state_of (updatePagination s)) = departamentoSelect s"
  "provinciaSelect (state_of (updatePagination s)) = provinciaSelect s"
  "distritoSelect (state_of (updatePagination s)) = distritoSelect s"
  "tipoEstablecimientoSelect (state_of (updatePagination s)) = tipoEstablecimientoSelect s"
  by (simp_all add: updatePagination_def Let_def split: option.split)

lemma page_link_click_in_range:
  assumes "parseInt (toStr (dataset_page link)) = Some n" and "1 \<le> n" and "n \<le> totalPages s"
  shows "page_link_click link s = updatePagination (renderTable (s\<lparr>currentPage := n\<rparr>))"
  using assms by (simp add: page_link_click_def)

lemma page_link_click_out_of_range:
  assumes "\<not> (\<exists>n. parseInt (toStr (dataset_page link)) = Some n \<and> 1 \<le> n \<and> n \<le> totalPages s)"
  shows "page_link_click link s = Done s"
  using assms by (cases "parseInt (toStr (dataset_page link))") (auto simp: page_link_click_def)

lemma target_prev_link: "parseInt (toStr (dataset_page (prev_link cp))) = Some (cp - 1)"
  by (simp add: prev_link_def dataset_page_def parseInt_string_of_int)

lemma target_next_link: "parseInt (toStr (dataset_page (next_link cp tp))) = Some (cp + 1)"
  by (simp add: next_link_def dataset_page_def parseInt_string_of_int)

lemma target_number_link: "parseInt (toStr (dataset_page (number_link cp i))) = Some i"
  by (simp add: number_link_def dataset_page_def parseInt_string_of_int)

text \<open>
  C6. A click on a page link sets \<open>currentPage\<close> to the link's target and redraws the
  table exactly when \<open>parseInt\<close> of its \<open>data-page\<close> is a number between 1 and
  \<open>totalPages\<close>; otherwise the state is left as it was. So a numbered link of a page in
  range moves there, and the ellipsis (no target), the previous link of page 1 (target 0)
  and the next link of the last page (target \<open>totalPages + 1\<close>) change nothing.
\<close>

theorem C6_page_link_click:
  "(\<forall>n. parseInt (toStr (dataset_page link)) = Some n \<and> 1 \<le> n \<and> n \<le> totalPages s \<longrightarrow>
      currentPage (state_of (page_link_click link s)) = n \<and>
      tbody (state_of (page_link_click link s)) =
        (case tbody s of None \<Rightarrow> None
         | Some _ \<Rightarrow> Some (map row (slice (currentData s) ((n - 1) * 10) ((n - 1) * 10 + 10))))) \<and>
   (\<not> (\<exists>n. parseInt (toStr (dataset_page link)) = Some n \<and> 1 \<le> n \<and> n \<le> totalPages s) \<longrightarrow>
      page_link_click link s = Done s) \<and>
   (\<forall>cp i. 1 \<le> i \<and> i \<le> totalPages s \<longrightarrow>
      currentPage (state_of (page_link_click (number_link cp i) s)) = i) \<and>
   page_link_click ellipsis s = Done s \<and>
   page_link_click (prev_link 1) s = Done s \<and>
   page_link_click (next_link (totalPages s) (totalPages s)) s = Done s"
proof (intro conjI allI impI)
  fix n
  assume a: "parseInt (toStr (dataset_page link)) = Some n \<and> 1 \<le> n \<and> n \<le> totalPages s"
  then have c: "page_link_click link s = updatePagination (renderTable (s\<lparr>currentPage := n\<rparr>))"
    by (simp add: page_link_click_in_range)
  show "currentPage (state_of (page_link_click link s)) = n"
    by (simp add: c updatePagination_frame renderTable_eq)
  show "tbody (state_of (page_link_click link s)) =
        (case tbody s of None \<Rightarrow> None
         | Some _ \<Rightarrow> Some (map row (slice (currentData s) ((n - 1) * 10) ((n - 1) * 10 + 10))))"
    by (simp add: c updatePagination_frame renderTable_eq split: option.split)
next
  assume "\<not> (\<exists>n. parseInt (toStr (dataset_page link)) = Some n \<and> 1 \<le> n \<and> n \<le> totalPages s)"
  then show "page_link_click link s = Done s"
    by (rule page_link_click_out_of_range)
next
  fix cp i
  assume "1 \<le> i \<and> i \<le> totalPages s"
  then have "page_link_click (number_link cp i) s =
      updatePagination (renderTable (s\<lparr>currentPage := i\<rparr>))"
    using target_number_link [of cp i] by (simp add: page_link_click_in_range)
  then show "currentPage (state_of (page_link_click (number_link cp i) s)) = i"
    by (simp add: updatePagination_frame renderTable_eq)
next
  show "page_link_click ellipsis s = Done s"
    by (rule ellipsis_click)
next
  show "page_link_click (prev_link 1) s = Done s"
    by (rule page_link_click_out_of_range) (simp add: target_prev_link)
next
  show "page_link_click (next_link (totalPages s) (totalPages s)) s = Done s"
    by (rule page_link_click_out_of_range) (simp add: target_next_link)
qed

lemma fifteen_rendered_eval:
  "totalPages fifteen_rendered = 2" "currentPage fifteen_rendered = 1"
  "pagination fifteen_rendered = Some [prev_link 1, number_link 1 1, number_link 1 2, next_link 1 2]"
  "map_option length (tbody fifteen_rendered) = Some 10"
  by code_simp+

theorem C6_page_link_click_witness:
  "pagination fifteen_rendered =
     Some [prev_link 1, number_link 1 1, number_link 1 2, next_link 1 2] \<and>
   currentPage (state_of (page_link_click (number_link 1 2) fifteen_rendered)) = 2 \<and>
   map_option length (tbody (state_of (page_link_click (number_link 1 2) fifteen_rendered))) = Some 5 \<and>
   page_link_click (prev_link 1) fifteen_rendered = Done fifteen_rendered"
proof -
  note c = C6_page_link_click [of "number_link 1 2" fifteen_rendered]
  have t: "parseInt (toStr (dataset_page (number_link 1 2))) = Some 2 \<and> (1::int) \<le> 2 \<and>
      2 \<le> totalPages fifteen_rendered"
    by (simp add: target_number_link fifteen_rendered_eval)
  have "currentPage (state_of (page_link_click (number_link 1 2) fifteen_rendered)) = 2"
    using c t by blast
  moreover have "tbody (state_of (page_link_click (number_link 1 2) fifteen_rendered)) =
      (case tbody fifteen_rendered of None \<Rightarrow> None
       | Some _ \<Rightarrow> Some (map row (slice (currentData fifteen_rendered) ((2 - 1) * 10) ((2 - 1) * 10 + 10))))"
    using c t by blast
  moreover have "map_option length (case tbody fifteen_rendered of None \<Rightarrow> None
       | Some _ \<Rightarrow> Some (map row (slice (currentData fifteen_rendered) ((2 - 1) * 10) ((2 - 1) * 10 + 10)))) = Some 5"
    by code_simp
  moreover have "page_link_click (prev_link 1) fifteen_rendered = Done fifteen_rendered"
    using c by blast
  ultimately show ?thesis
    by (simp add: fifteen_rendered_eval)
qed

subsection \<open>The establishment-type filter and the region filters\<close>

lemma slice_first_page: "slice xs 0 10 = take 10 xs"
  by (simp add: slice_def Let_def min_def)

lemma tipoEstablecimiento_change_eq:
  "tipoEstablecimiento_change tipo s =
     updatePagination (renderTable
       (s\<lparr>currentData :=
            (if tipo \<noteq> [] then [it \<leftarrow> currentData s. TIPO_ESTABLECIMIENTO it = JString tipo]
             else currentData s),
          currentPage := 1\<rparr>))"
  by (simp add: tipoEstablecimiento_change_def Let_def)

lemma tipoEstablecimiento_change_state:
  fixes tipo s
  defines "s' \<equiv> state_of (tipoEstablecimiento_change tipo s)"
    and "kept \<equiv> (if tipo \<noteq> [] then [it \<leftarrow> currentData s. TIPO_ESTABLECIMIENTO it = JString tipo]
                   else currentData s)"
  shows "requests s' = requests s"
    and "currentData s' = kept"
    and "currentPage s' = 1"
    and "tbody s' = (case tbody s of None \<Rightarrow> None | Some _ \<Rightarrow> Some (map row (take 10 kept)))"
  unfolding s'_def kept_def tipoEstablecimiento_change_eq
  by (simp_all add: updatePagination_frame renderTable_eq slice_first_page split: option.split)

lemma tipoEstablecimiento_change_pagination:
  fixes tipo s
  defines "s' \<equiv> state_of (tipoEstablecimiento_change tipo s)"
    and "kept \<equiv> (if tipo \<noteq> [] then [it \<leftarrow> currentData s. TIPO_ESTABLECIMIENTO it = JString tipo]
                   else currentData s)"
  assumes "pagination s \<noteq> None" and "pagination_info s \<noteq> None" and "kept \<noteq> []"
  shows "thrown (tipoEstablecimiento_change tipo s) = None"
    and "totalPages s' = math_ceil_div (int (length kept)) 10"
    and "pagination s' = Some (paginationHTML 1 (math_ceil_div (int (length kept)) 10))"
    and "pagination_info s' = Some (info_text 1 (min 10 (int (length kept))) (int (length kept)))"
proof -
  let ?s1 = "renderTable (s\<lparr>currentData := kept, currentPage := 1\<rparr>)"
  obtain pg pinfo where dom: "pagination ?s1 = Some pg" "pagination_info ?s1 = Some pinfo"
    using assms(3,4) by (auto simp: renderTable_eq)
  have ne: "currentData ?s1 \<noteq> []"
    using assms(5) by (simp add: renderTable_eq)
  from dom(1) ne dom(2) have "updatePagination ?s1 =
      Done (?s1\<lparr>totalPages := math_ceil_div (int (length (currentData ?s1))) 10,
              pagination_info :=
                Some (info_text ((currentPage ?s1 - 1) * 10 + 1)
                        (min (currentPage ?s1 * 10) (int (length (currentData ?s1))))
                        (int (length (currentData ?s1)))),
              pagination :=
                Some (paginationHTML (currentPage ?s1)
                        (math_ceil_div (int (length (currentData ?s1))) 10))\<rparr>)"
    by (rule updatePagination_Done)
  moreover have "currentData ?s1 = kept" "currentPage ?s1 = 1"
    by (simp_all add: renderTable_eq)
  ultimately have up: "updatePagination ?s1 =
      Done (?s1\<lparr>totalPages := math_ceil_div (int (length kept)) 10,
              pagination_info := Some (info_text 1 (min 10 (int (length kept))) (int (length kept))),
              pagination := Some (paginationHTML 1 (math_ceil_div (int (length kept)) 10))\<rparr>)"
    by simp
  have eq: "tipoEstablecimiento_change tipo s = updatePagination ?s1"
    unfolding kept_def by (rule tipoEstablecimiento_change_eq)
  show "thrown (tipoEstablecimiento_change tipo s) = None"
    and "totalPages s' = math_ceil_div (int (length kept)) 10"
    and "pagination s' = Some (paginationHTML 1 (math_ceil_div (int (length kept)) 10))"
    and "pagination_info s' = Some (info_text 1 (min 10 (int (length kept))) (int (length kept)))"
    unfolding s'_def eq up by simp_all
qed

lemma region_change_Done:
  assumes "departamentoSelect s = Some d" and "provinciaSelect s = Some p"
    and "distritoSelect s = Some t"
  shows "region_change s =
     Done (s\<lparr>loading_hidden := False,
             requests := requests s @
               [GET (request_url \<lparr>filter_departamento = JString (sel_value d),
                                  filter_provincia = JString (sel_value p),
                                  filter_distrito = JString (sel_value t)\<rparr>)]\<rparr>)"
  using assms by (simp add: region_change_def fetchData_start_def showLoading_def Let_def)

lemma updatePagination_empty: "currentData s = [] \<Longrightarrow> updatePagination s = Done s"
  by (simp add: updatePagination_def split: option.split)

lemma tipoEstablecimiento_change_empty:
  fixes tipo s
  defines "s' \<equiv> state_of (tipoEstablecimiento_change tipo s)"
    and "kept \<equiv> (if tipo \<noteq> [] then [it \<leftarrow> currentData s. TIPO_ESTABLECIMIENTO it = JString tipo]
                   else currentData s)"
  assumes "kept = []"
  shows "thrown (tipoEstablecimiento_change tipo s) = None"
    and "totalPages s' = totalPages s"
    and "pagination s' = pagination s"
    and "pagination_info s' = pagination_info s"
proof -
  let ?s1 = "renderTable (s\<lparr>currentData := kept, currentPage := 1\<rparr>)"
  have "currentData ?s1 = []"
    using assms(3) by (simp add: renderTable_eq)
  then have up: "updatePagination ?s1 = Done ?s1"
    by (rule updatePagination_empty)
  have eq: "tipoEstablecimiento_change tipo s = updatePagination ?s1"
    unfolding kept_def by (rule tipoEstablecimiento_change_eq)
  show "thrown (tipoEstablecimiento_change tipo s) = None"
    and "totalPages s' = totalPages s"
    and "pagination s' = pagination s"
    and "pagination_info s' = pagination_info s"
    unfolding s'_def eq up by (simp_all add: renderTable_eq)
qed

text \<open>
  C3, as stated, fails where it says that the page is re-rendered for every record set:
  on the page narrowed to its four FARMACIA records, choosing GRIFO keeps no record;
  \<open>updatePagination\<close> returns at its test of \<open>currentData.length\<close>, and the info text
  and the links of the four records stay over the empty table.
\<close>

theorem C3_type_filter_is_local_counterexample:
  "length (currentData four_farmacias) = 4 \<and>
   currentData (state_of (tipoEstablecimiento_change ''GRIFO'' four_farmacias)) = [] \<and>
   tbody (state_of (tipoEstablecimiento_change ''GRIFO'' four_farmacias)) = Some [] \<and>
   pagination_info (state_of (tipoEstablecimiento_change ''GRIFO'' four_farmacias)) =
     Some ''Mostrando 1 a 4 de 4 registros'' \<and>
   map_option (map link_text)
     (pagination (state_of (tipoEstablecimiento_change ''GRIFO'' four_farmacias))) =
     Some [''Anterior'', ''1'', ''Siguiente''] \<and>
   totalPages (state_of (tipoEstablecimiento_change ''GRIFO'' four_farmacias)) = 1"
  by code_simp

text \<open>
  C3, amended. The listener of the establishment-type selector, run with a non-empty
  value, issues no request, keeps exactly the records whose \<open>TIPO_ESTABLECIMIENTO\<close> is
  that string, sets \<open>currentPage\<close> to 1 and redraws the table body (if present) with the
  first ten kept records. When a record is kept (and container and info element are
  present) the pagination is rebuilt for page 1 of the kept records; when none is kept,
  the container, the info text and \<open>totalPages\<close> stay as they were. The listener of each
  region selector, with the three region selectors in the page, returns normally and
  issues one request.
\<close>

theorem C3_type_filter_is_local:
  "(tipo \<noteq> [] \<longrightarrow>
      requests (state_of (tipoEstablecimiento_change tipo s)) = requests s \<and>
      currentData (state_of (tipoEstablecimiento_change tipo s)) =
        [it \<leftarrow> currentData s. TIPO_ESTABLECIMIENTO it = JString tipo] \<and>
      currentPage (state_of (tipoEstablecimiento_change tipo s)) = 1 \<and>
      tbody (state_of (tipoEstablecimiento_change tipo s)) =
        (case tbody s of None \<Rightarrow> None
         | Some _ \<Rightarrow>
             Some (map row (take 10 [it \<leftarrow> currentData s. TIPO_ESTABLECIMIENTO it = JString tipo]))) \<and>
      (pagination s \<noteq> None \<and> pagination_info s \<noteq> None \<and>
       [it \<leftarrow> currentData s. TIPO_ESTABLECIMIENTO it = JString tipo] \<noteq> [] \<longrightarrow>
         thrown (tipoEstablecimiento_change tipo s) = None \<and>
         totalPages (state_of (tipoEstablecimiento_change tipo s)) =
           math_ceil_div
             (int (length [it \<leftarrow> currentData s. TIPO_ESTABLECIMIENTO it = JString tipo])) 10 \<and>
         pagination (state_of (tipoEstablecimiento_change tipo s)) =
           Some (paginationHTML 1
                  (math_ceil_div
                    (int (length [it \<leftarrow> currentData s. TIPO_ESTABLECIMIENTO it = JString tipo])) 10)) \<and>
         pagination_info (state_of (tipoEstablecimiento_change tipo s)) =
           Some (info_text 1
                  (min 10 (int (length [it \<leftarrow> currentData s. TIPO_ESTABLECIMIENTO it = JString tipo])))
                  (int (length [it \<leftarrow> currentData s. TIPO_ESTABLECIMIENTO it = JString tipo])))) \<and>
      ([it \<leftarrow> currentData s. TIPO_ESTABLECIMIENTO it = JString tipo] = [] \<longrightarrow>
         thrown (tipoEstablecimiento_change tipo s) = None \<and>
         totalPages (state_of (tipoEstablecimiento_change tipo s)) = totalPages s \<and>
         pagination (state_of (tipoEstablecimiento_change tipo s)) = pagination s \<and>
         pagination_info (state_of (tipoEstablecimiento_change tipo s)) = pagination_info s)) \<and>
   (departamentoSelect s \<noteq> None \<and> provinciaSelect s \<noteq> None \<and> distritoSelect s \<noteq> None \<longrightarrow>
      thrown (region_change s) = None \<and>
      requests (state_of (region_change s)) =
        requests s @
        [GET (request_url
               \<lparr>filter_departamento = JString (sel_value (the (departamentoSelect s))),
                filter_provincia = JString (sel_value (the (provinciaSelect s))),
                filter_distrito = JString (sel_value (the (distritoSelect s)))\<rparr>)])"
proof (intro conjI impI)
  assume t: "tipo \<noteq> []"
  let ?kept = "[it \<leftarrow> currentData s. TIPO_ESTABLECIMIENTO it = JString tipo]"
  show "requests (state_of (tipoEstablecimiento_change tipo s)) = requests s"
    by (rule tipoEstablecimiento_change_state)
  show "currentData (state_of (tipoEstablecimiento_change tipo s)) = ?kept"
    using t by (simp add: tipoEstablecimiento_change_state)
  show "currentPage (state_of (tipoEstablecimiento_change tipo s)) = 1"
    by (rule tipoEstablecimiento_change_state)
  show "tbody (state_of (tipoEstablecimiento_change tipo s)) =
        (case tbody s of None \<Rightarrow> None | Some _ \<Rightarrow> Some (map row (take 10 ?kept)))"
    using t by (simp add: tipoEstablecimiento_change_state)
  {
    assume "pagination s \<noteq> None \<and> pagination_info s \<noteq> None \<and> ?kept \<noteq> []"
    then have p: "pagination s \<noteq> None" "pagination_info s \<noteq> None"
        "(if tipo \<noteq> [] then ?kept else currentData s) \<noteq> []"
      using t by simp_all
    show "thrown (tipoEstablecimiento_change tipo s) = None"
      using tipoEstablecimiento_change_pagination(1) [OF p] .
    show "totalPages (state_of (tipoEstablecimiento_change tipo s)) =
            math_ceil_div (int (length ?kept)) 10"
      using tipoEstablecimiento_change_pagination(2) [OF p] t by simp
    show "pagination (state_of (tipoEstablecimiento_change tipo s)) =
            Some (paginationHTML 1 (math_ceil_div (int (length ?kept)) 10))"
      using tipoEstablecimiento_change_pagination(3) [OF p] t by simp
    show "pagination_info (state_of (tipoEstablecimiento_change tipo s)) =
            Some (info_text 1 (min 10 (int (length ?kept))) (int (length ?kept)))"
      using tipoEstablecimiento_change_pagination(4) [OF p] t by simp
  }
  {
    assume "?kept = []"
    then have e: "(if tipo \<noteq> [] then ?kept else currentData s) = []"
      using t by simp
    show "thrown (tipoEstablecimiento_change tipo s) = None"
      using tipoEstablecimiento_change_empty(1) [OF e] .
    show "totalPages (state_of (tipoEstablecimiento_change tipo s)) = totalPages s"
      using tipoEstablecimiento_change_empty(2) [OF e] .
    show "pagination (state_of (tipoEstablecimiento_change tipo s)) = pagination s"
      using tipoEstablecimiento_change_empty(3) [OF e] .
    show "pagination_info (state_of (tipoEstablecimiento_change tipo s)) = pagination_info s"
      using tipoEstablecimiento_change_empty(4) [OF e] .
  }
next
  assume "departamentoSelect s \<noteq> None \<and> provinciaSelect s \<noteq> None \<and> distritoSelect s \<noteq> None"
  then obtain d p t where sel: "departamentoSelect s = Some d" "provinciaSelect s = Some p"
      "distritoSelect s = Some t"
    by auto
  show "thrown (region_change s) = None"
    by (simp add: region_change_Done [OF sel])
  show "requests (state_of (region_change s)) =
        requests s @
        [GET (request_url
               \<lparr>filter_departamento = JString (sel_value (the (departamentoSelect s))),
                filter_provincia = JString (sel_value (the (provinciaSelect s))),
                filter_distrito = JString (sel_value (the (distritoSelect s)))\<rparr>)]"
    by (simp add: region_change_Done [OF sel] sel)
qed

lemma twentyfive_farmacia:
  "[it \<leftarrow> currentData twentyfive. TIPO_ESTABLECIMIENTO it = JString ''FARMACIA''] =
     [farmacia, farmacia, farmacia, farmacia]"
  "math_ceil_div (int (length [farmacia, farmacia, farmacia, farmacia])) 10 = 1"
  "paginationHTML 1 1 = [prev_link 1, number_link 1 1, next_link 1 1]"
  "pagination twentyfive \<noteq> None \<and> pagination_info twentyfive \<noteq> None"
  "departamentoSelect twentyfive \<noteq> None \<and> provinciaSelect twentyfive \<noteq> None \<and>
   distritoSelect twentyfive \<noteq> None"
  "requests twentyfive = []"
  "request_url
     \<lparr>filter_departamento = JString (sel_value (the (departamentoSelect twentyfive))),
      filter_provincia = JString (sel_value (the (provinciaSelect twentyfive))),
      filter_distrito = JString (sel_value (the (distritoSelect twentyfive)))\<rparr> =
   ''/.netlify/functions/api/api/precios?departamento=LIMA&distrito=SAN+ISIDRO''"
  by code_simp+

lemma four_farmacias_grifo:
  "[it \<leftarrow> currentData four_farmacias. TIPO_ESTABLECIMIENTO it = JString ''GRIFO''] = []"
  "pagination_info four_farmacias = Some ''Mostrando 1 a 4 de 4 registros''"
  by code_simp+

theorem C3_type_filter_is_local_witness:
  "requests (state_of (tipoEstablecimiento_change ''FARMACIA'' twentyfive)) = [] \<and>
   currentData (state_of (tipoEstablecimiento_change ''FARMACIA'' twentyfive)) =
     [farmacia, farmacia, farmacia, farmacia] \<and>
   currentPage (state_of (tipoEstablecimiento_change ''FARMACIA'' twentyfive)) = 1 \<and>
   pagination (state_of (tipoEstablecimiento_change ''FARMACIA'' twentyfive)) =
     Some [prev_link 1, number_link 1 1, next_link 1 1] \<and>
   pagination_info (state_of (tipoEstablecimiento_change ''GRIFO'' four_farmacias)) =
     Some ''Mostrando 1 a 4 de 4 registros'' \<and>
   requests (state_of (region_change twentyfive)) =
     [GET ''/.netlify/functions/api/api/precios?departamento=LIMA&distrito=SAN+ISIDRO'']"
proof -
  have ne: "''FARMACIA'' \<noteq> []" "''GRIFO'' \<noteq> []" by simp_all
  have k: "[farmacia, farmacia, farmacia, farmacia] \<noteq> []" by simp
  note c = C3_type_filter_is_local [of "''FARMACIA''" twentyfive, unfolded twentyfive_farmacia(1)]
  note g = C3_type_filter_is_local [of "''GRIFO''" four_farmacias, unfolded four_farmacias_grifo(1)]
  have "requests (state_of (tipoEstablecimiento_change ''FARMACIA'' twentyfive)) = []"
    using c ne(1) twentyfive_farmacia(6) by simp
  moreover have "currentData (state_of (tipoEstablecimiento_change ''FARMACIA'' twentyfive)) =
      [farmacia, farmacia, farmacia, farmacia]"
    using c ne(1) by blast
  moreover have "currentPage (state_of (tipoEstablecimiento_change ''FARMACIA'' twentyfive)) = 1"
    using c ne(1) by blast
  moreover have "pagination (state_of (tipoEstablecimiento_change ''FARMACIA'' twentyfive)) =
      Some (paginationHTML 1 (math_ceil_div (int (length [farmacia, farmacia, farmacia, farmacia])) 10))"
    using c ne(1) k twentyfive_farmacia(4) by blast
  moreover have "pagination_info (state_of (tipoEstablecimiento_change ''GRIFO'' four_farmacias)) =
      pagination_info four_farmacias"
    using g ne(2) by blast
  moreover have "requests (state_of (region_change twentyfive)) =
      requests twentyfive @
      [GET (request_url
             \<lparr>filter_departamento = JString (sel_value (the (departamentoSelect twentyfive))),
              filter_provincia = JString (sel_value (the (provinciaSelect twentyfive))),
              filter_distrito = JString (sel_value (the (distritoSelect twentyfive)))\<rparr>)]"
    using c twentyfive_farmacia(5) by blast
  ultimately show ?thesis
    by (simp only: twentyfive_farmacia four_farmacias_grifo append_Nil simp_thms)
qed

text \<open>
  C10, as stated, fails where it says that table and pagination are re-rendered: on the
  page whose narrowing kept no record, the listener run with the empty value leaves the
  info text and the links of the 15 records that were there before.
\<close>

theorem C10_type_filter_all_keeps_data_counterexample:
  "currentData none_left = [] \<and>
   currentData (state_of (tipoEstablecimiento_change [] none_left)) = [] \<and>
   tbody (state_of (tipoEstablecimiento_change [] none_left)) = Some [] \<and>
   pagination_info (state_of (tipoEstablecimiento_change [] none_left)) =
     Some ''Mostrando 1 a 10 de 15 registros'' \<and>
   map_option (map link_text) (pagination (state_of (tipoEstablecimiento_change [] none_left))) =
     Some [''Anterior'', ''1'', ''2'', ''Siguiente''] \<and>
   totalPages (state_of (tipoEstablecimiento_change [] none_left)) = 2"
  by code_simp

text \<open>
  C10, amended. The listener of the establishment-type selector, run with the empty
  value, issues no request and leaves \<open>currentData\<close> as it is, sets \<open>currentPage\<close> to 1
  and redraws the table body. When \<open>currentData\<close> is not empty (and container and info
  element are present) the pagination is rebuilt for page 1; when it is empty, the
  container, the info text and \<open>totalPages\<close> stay as they were. Run after a narrowing to
  a non-empty value, the listener leaves the narrowed records in place.
\<close>

theorem C10_type_filter_all_keeps_data:
  "requests (state_of (tipoEstablecimiento_change [] s)) = requests s \<and>
   currentData (state_of (tipoEstablecimiento_change [] s)) = currentData s \<and>
   currentPage (state_of (tipoEstablecimiento_change [] s)) = 1 \<and>
   tbody (state_of (tipoEstablecimiento_change [] s)) =
     (case tbody s of None \<Rightarrow> None | Some _ \<Rightarrow> Some (map row (take 10 (currentData s)))) \<and>
   (pagination s \<noteq> None \<and> pagination_info s \<noteq> None \<and> currentData s \<noteq> [] \<longrightarrow>
      thrown (tipoEstablecimiento_change [] s) = None \<and>
      totalPages (state_of (tipoEstablecimiento_change [] s)) =
        math_ceil_div (int (length (currentData s))) 10 \<and>
      pagination (state_of (tipoEstablecimiento_change [] s)) =
        Some (paginationHTML 1 (math_ceil_div (int (length (currentData s))) 10)) \<and>
      pagination_info (state_of (tipoEstablecimiento_change [] s)) =
        Some (info_text 1 (min 10 (int (length (currentData s)))) (int (length (currentData s))))) \<and>
   (currentData s = [] \<longrightarrow>
      thrown (tipoEstablecimiento_change [] s) = None \<and>
      totalPages (state_of (tipoEstablecimiento_change [] s)) = totalPages s \<and>
      pagination (state_of (tipoEstablecimiento_change [] s)) = pagination s \<and>
      pagination_info (state_of (tipoEstablecimiento_change [] s)) = pagination_info s) \<and>
   (tipo \<noteq> [] \<longrightarrow>
      currentData (state_of (tipoEstablecimiento_change []
                     (state_of (tipoEstablecimiento_change tipo s)))) =
        [it \<leftarrow> currentData s. TIPO_ESTABLECIMIENTO it = JString tipo])"
proof (intro conjI impI)
  show "requests (state_of (tipoEstablecimiento_change [] s)) = requests s"
    by (rule tipoEstablecimiento_change_state)
  show "currentData (state_of (tipoEstablecimiento_change [] s)) = currentData s"
    by (simp add: tipoEstablecimiento_change_state)
  show "currentPage (state_of (tipoEstablecimiento_change [] s)) = 1"
    by (rule tipoEstablecimiento_change_state)
  show "tbody (state_of (tipoEstablecimiento_change [] s)) =
     (case tbody s of None \<Rightarrow> None | Some _ \<Rightarrow> Some (map row (take 10 (currentData s))))"
    by (simp add: tipoEstablecimiento_change_state)
next
  assume "pagination s \<noteq> None \<and> pagination_info s \<noteq> None \<and> currentData s \<noteq> []"
  then have p: "pagination s \<noteq> None" "pagination_info s \<noteq> None"
      "(if [] \<noteq> ([]::string) then [it \<leftarrow> currentData s. TIPO_ESTABLECIMIENTO it = JString []]
        else currentData s) \<noteq> []"
    by simp_all
  show "thrown (tipoEstablecimiento_change [] s) = None"
    using tipoEstablecimiento_change_pagination(1) [OF p] .
  show "totalPages (state_of (tipoEstablecimiento_change [] s)) =
        math_ceil_div (int (length (currentData s))) 10"
    using tipoEstablecimiento_change_pagination(2) [OF p] by simp
  show "pagination (state_of (tipoEstablecimiento_change [] s)) =
        Some (paginationHTML 1 (math_ceil_div (int (length (currentData s))) 10))"
    using tipoEstablecimiento_change_pagination(3) [OF p] by simp
  show "pagination_info (state_of (tipoEstablecimiento_change [] s)) =
        Some (info_text 1 (min 10 (int (length (currentData s)))) (int (length (currentData s))))"
    using tipoEstablecimiento_change_pagination(4) [OF p] by simp
next
  assume "currentData s = []"
  then have e: "(if [] \<noteq> ([]::string)
      then [it \<leftarrow> currentData s. TIPO_ESTABLECIMIENTO it = JString []] else currentData s) = []"
    by simp
  show "thrown (tipoEstablecimiento_change [] s) = None"
    using tipoEstablecimiento_change_empty(1) [OF e] .
  show "totalPages (state_of (tipoEstablecimiento_change [] s)) = totalPages s"
    using tipoEstablecimiento_change_empty(2) [OF e] .
  show "pagination (state_of (tipoEstablecimiento_change [] s)) = pagination s"
    using tipoEstablecimiento_change_empty(3) [OF e] .
  show "pagination_info (state_of (tipoEstablecimiento_change [] s)) = pagination_info s"
    using tipoEstablecimiento_change_empty(4) [OF e] .
next
  assume "tipo \<noteq> []"
  then show "currentData (state_of (tipoEstablecimiento_change []
                     (state_of (tipoEstablecimiento_change tipo s)))) =
        [it \<leftarrow> currentData s. TIPO_ESTABLECIMIENTO it = JString tipo]"
    by (simp add: tipoEstablecimiento_change_state)
qed

lemma twentyfive_all:
  "length (currentData twentyfive) = 25"
  "currentData twentyfive \<noteq> []"
  "map link_text (paginationHTML 1 (math_ceil_div 25 10)) =
     [''Anterior'', ''1'', ''2'', ''3'', ''Siguiente'']"
  "info_text 1 10 25 = ''Mostrando 1 a 10 de 25 registros''"
  by code_simp+

lemma none_left_page:
  "currentData none_left = []"
  "pagination_info none_left = Some ''Mostrando 1 a 10 de 15 registros''"
  by code_simp+

theorem C10_type_filter_all_keeps_data_witness:
  "currentData (state_of (tipoEstablecimiento_change [] twentyfive)) = currentData twentyfive \<and>
   currentPage (state_of (tipoEstablecimiento_change [] twentyfive)) = 1 \<and>
   map_option (map link_text) (pagination (state_of (tipoEstablecimiento_change [] twentyfive))) =
     Some [''Anterior'', ''1'', ''2'', ''3'', ''Siguiente''] \<and>
   pagination_info (state_of (tipoEstablecimiento_change [] twentyfive)) =
     Some ''Mostrando 1 a 10 de 25 registros'' \<and>
   pagination_info (state_of (tipoEstablecimiento_change [] none_left)) =
     Some ''Mostrando 1 a 10 de 15 registros'' \<and>
   currentData (state_of (tipoEstablecimiento_change []
                  (state_of (tipoEstablecimiento_change ''FARMACIA'' twentyfive)))) =
     [farmacia, farmacia, farmacia, farmacia]"
proof -
  note c = C10_type_filter_all_keeps_data [of twentyfive "''FARMACIA''",
      unfolded twentyfive_farmacia(1) twentyfive_all(1)]
  note n = C10_type_filter_all_keeps_data [of none_left]
  have dom: "pagination twentyfive \<noteq> None \<and> pagination_info twentyfive \<noteq> None \<and>
      currentData twentyfive \<noteq> []"
    using twentyfive_farmacia(4) twentyfive_all(2) by blast
  have "currentData (state_of (tipoEstablecimiento_change [] twentyfive)) = currentData twentyfive"
    using c by blast
  moreover have "currentPage (state_of (tipoEstablecimiento_change [] twentyfive)) = 1"
    using c by blast
  moreover have "pagination (state_of (tipoEstablecimiento_change [] twentyfive)) =
      Some (paginationHTML 1 (math_ceil_div (int 25) 10))"
    using c dom by blast
  moreover have "pagination_info (state_of (tipoEstablecimiento_change [] twentyfive)) =
      Some (info_text 1 (min 10 (int 25)) (int 25))"
    using c dom by blast
  moreover have "pagination_info (state_of (tipoEstablecimiento_change [] none_left)) =
      pagination_info none_left"
    using n none_left_page(1) by blast
  moreover have "currentData (state_of (tipoEstablecimiento_change []
                  (state_of (tipoEstablecimiento_change ''FARMACIA'' twentyfive)))) =
     [farmacia, farmacia, farmacia, farmacia]"
    using c by simp
  ultimately show ?thesis
    by (simp add: twentyfive_all none_left_page)
qed

subsection \<open>fetchData: failure, the overlay and the request\<close>

lemma fetchData_try_failed: "failed r \<Longrightarrow> fetchData_try r s = Threw (rejection r) s"
  by (cases r) (simp_all add: fetchData_try_def)

lemma fetchData_resume_failed:
  "failed r \<Longrightarrow>
   fetchData_resume r s =
     s\<lparr>loading_hidden := True, console_errors := console_errors s @ [rejection r],
       alerts := alerts s @ [alert_message]\<rparr>"
  by (simp add: fetchData_resume_def fetchData_try_failed hideLoading_def)

lemma loading_hidden_fetchData_resume: "loading_hidden (fetchData_resume r s)"
  by (simp add: fetchData_resume_def hideLoading_def)

lemma loading_shown_fetchData_start: "\<not> loading_hidden (fetchData_start f s)"
  by (simp add: fetchData_start_def showLoading_def Let_def)

lemma updateFilterOptions_frame:
  "currentData (updateFilterOptions s) = currentData s"
  "currentPage (updateFilterOptions s) = currentPage s"
  "tbody (updateFilterOptions s) = tbody s"
  "pagination (updateFilterOptions s) = pagination s"
  "pagination_info (updateFilterOptions s) = pagination_info s"
  "requests (updateFilterOptions s) = requests s"
  "alerts (updateFilterOptions s) = alerts s"
  by (simp_all add: updateFilterOptions_def Let_def)

lemma fetchData_try_ok_state:
  assumes "response_ok status"
  shows "currentPage (state_of (fetchData_try (Response status body) s)) = 1"
    and "currentData (state_of (fetchData_try (Response status body) s)) = body"
proof -
  let ?s3 = "renderTable (s\<lparr>currentData := body, currentPage := 1\<rparr>)"
  have t: "fetchData_try (Response status body) s =
      (case updatePagination ?s3 of
         Threw e s4 \<Rightarrow> Threw e s4
       | Done s4 \<Rightarrow> Done (updateFilterOptions s4))"
    using assms by (simp add: fetchData_try_def Let_def)
  have f: "currentPage (state_of (updatePagination ?s3)) = 1"
      "currentData (state_of (updatePagination ?s3)) = body"
    by (simp_all add: updatePagination_frame renderTable_eq)
  show "currentPage (state_of (fetchData_try (Response status body) s)) = 1"
    and "currentData (state_of (fetchData_try (Response status body) s)) = body"
    using f unfolding t by (cases "updatePagination ?s3"; simp add: updateFilterOptions_frame)+
qed

lemma fetchData_resume_ok_page:
  assumes "response_ok status"
  shows "currentPage (fetchData_resume (Response status body) s) = 1"
    and "currentData (fetchData_resume (Response status body) s) = body"
  using fetchData_try_ok_state [OF assms, of body s]
  by (cases "fetchData_try (Response status body) s"; simp add: fetchData_resume_def hideLoading_def)+

text \<open>
  C4. When the fetch fails (rejected, or a status outside 200..299), the rest of
  \<open>fetchData\<close> changes the state in three places only: one alert is added, the error
  is logged, the overlay is hidden; so \<open>currentData\<close>, \<open>currentPage\<close> and the table
  body are as before. The overlay is shown when \<open>fetchData\<close> starts and hidden when it
  ends, whatever the response.
\<close>

theorem C4_failed_fetch_alerts_once:
  "(failed r \<longrightarrow>
      fetchData_resume r s =
        s\<lparr>loading_hidden := True, console_errors := console_errors s @ [rejection r],
          alerts := alerts s @ [alert_message]\<rparr> \<and>
      alerts (fetchData_resume r s) = alerts s @ [alert_message] \<and>
      currentData (fetchData_resume r s) = currentData s \<and>
      currentPage (fetchData_resume r s) = currentPage s \<and>
      tbody (fetchData_resume r s) = tbody s) \<and>
   \<not> loading_hidden (fetchData_start f s) \<and>
   loading_hidden (fetchData_resume r s) \<and>
   loading_hidden (fetchData f r s)"
proof (intro conjI impI)
  assume "failed r"
  then show e: "fetchData_resume r s =
        s\<lparr>loading_hidden := True, console_errors := console_errors s @ [rejection r],
          alerts := alerts s @ [alert_message]\<rparr>"
    by (rule fetchData_resume_failed)
  show "alerts (fetchData_resume r s) = alerts s @ [alert_message]"
    and "currentData (fetchData_resume r s) = currentData s"
    and "currentPage (fetchData_resume r s) = currentPage s"
    and "tbody (fetchData_resume r s) = tbody s"
    unfolding e by simp_all
next
  show "\<not> loading_hidden (fetchData_start f s)"
    by (rule loading_shown_fetchData_start)
  show "loading_hidden (fetchData_resume r s)"
    by (rule loading_hidden_fetchData_resume)
  show "loading_hidden (fetchData f r s)"
    unfolding fetchData_def by (rule loading_hidden_fetchData_resume)
qed

lemma fifteen_rendered_alerts: "alerts fifteen_rendered = []"
  by code_simp

theorem C4_failed_fetch_alerts_once_witness:
  "failed (Response 500 []) \<and>
   alerts (fetchData_resume (Response 500 []) fifteen_rendered) = [alert_message] \<and>
   tbody (fetchData_resume (Response 500 []) fifteen_rendered) = tbody fifteen_rendered \<and>
   currentData (fetchData_resume (Response 500 []) fifteen_rendered) = currentData fifteen_rendered \<and>
   loading_hidden (fetchData_resume (Response 500 []) fifteen_rendered)"
proof -
  have f: "failed (Response 500 [])"
    by (simp add: response_ok_def)
  show ?thesis
    using C4_failed_fetch_alerts_once [of "Response 500 []" fifteen_rendered] f
      fifteen_rendered_alerts
    by simp
qed

lemma join_amp_Nil: "join_amp (x # xs) = [] \<longleftrightarrow> x = [] \<and> xs = []"
  by (cases xs) simp_all

lemma params_toString_Nil: "params_toString ps = [] \<longleftrightarrow> ps = []"
  by (cases ps) (auto simp: params_toString_def join_amp_Nil)

lemma query_params_strings:
  "query_params \<lparr>filter_departamento = JString d, filter_provincia = JString p,
                  filter_distrito = JString t\<rparr> =
     [(k, v) \<leftarrow> [(''departamento'', d), (''provincia'', p), (''distrito'', t)]. v \<noteq> []]"
  by (simp add: query_params_def Let_def)

lemma request_url_eq:
  "request_url f =
     ''/.netlify/functions/api/api/precios'' @
     (if query_params f = [] then [] else ''?'' @ params_toString (query_params f))"
  by (simp add: request_url_def Let_def params_toString_Nil)

text \<open>
  C7. With the three region selectors in the page, a region listener issues one
  \<open>GET\<close> of \<open>/.netlify/functions/api/api/precios\<close>, followed by \<open>?\<close> and the
  serialisation of exactly those of \<open>departamento\<close>, \<open>provincia\<close>, \<open>distrito\<close> (in
  this order) whose selector value is not empty, and by nothing when all three are empty.
  Once a response with a status in 200..299 is there, \<open>currentPage\<close> is 1.
\<close>

theorem C7_region_request:
  assumes "departamentoSelect s = Some d" and "provinciaSelect s = Some p"
    and "distritoSelect s = Some t"
    and "ps = [(k, v) \<leftarrow> [(''departamento'', sel_value d), (''provincia'', sel_value p),
                          (''distrito'', sel_value t)]. v \<noteq> []]"
  shows "region_change s =
           Done (s\<lparr>loading_hidden := False,
                   requests := requests s @
                     [GET (''/.netlify/functions/api/api/precios'' @
                           (if ps = [] then [] else ''?'' @ params_toString ps))]\<rparr>) \<and>
         (\<forall>status body s0. response_ok status \<longrightarrow>
            currentPage (fetchData_resume (Response status body) s0) = 1)"
proof
  show "region_change s =
           Done (s\<lparr>loading_hidden := False,
                   requests := requests s @
                     [GET (''/.netlify/functions/api/api/precios'' @
                           (if ps = [] then [] else ''?'' @ params_toString ps))]\<rparr>)"
    unfolding region_change_Done [OF assms(1-3)] request_url_eq query_params_strings assms(4) ..
  show "\<forall>status body s0. response_ok status \<longrightarrow>
            currentPage (fetchData_resume (Response status body) s0) = 1"
    by (simp add: fetchData_resume_ok_page)
qed

lemma twentyfive_selects:
  "departamentoSelect twentyfive =
     Some \<lparr>sel_options = [(''Todos'', ''''), (''LIMA'', ''LIMA'')], selectedIndex = 1\<rparr>"
  "provinciaSelect twentyfive = Some \<lparr>sel_options = [(''Todos'', '''')], selectedIndex = 0\<rparr>"
  "distritoSelect twentyfive =
     Some \<lparr>sel_options = [(''Todos'', ''''), (''SAN ISIDRO'', ''SAN ISIDRO'')],
           selectedIndex = 1\<rparr>"
  "departamentoSelect no_region = Some \<lparr>sel_options = [(''Todos'', '''')], selectedIndex = 0\<rparr>"
  "provinciaSelect no_region = Some \<lparr>sel_options = [(''Todos'', '''')], selectedIndex = 0\<rparr>"
  "distritoSelect no_region = Some \<lparr>sel_options = [(''Todos'', '''')], selectedIndex = 0\<rparr>"
  "requests twentyfive = []" "requests no_region = []"
  by (simp_all add: twentyfive_def no_region_def initial_state_def)

lemma sample_query:
  "params_toString [(''departamento'', ''LIMA''), (''distrito'', ''SAN ISIDRO'')] =
     ''departamento=LIMA&distrito=SAN+ISIDRO''"
  by code_simp

theorem C7_region_request_witness:
  "requests (state_of (region_change twentyfive)) =
     [GET ''/.netlify/functions/api/api/precios?departamento=LIMA&distrito=SAN+ISIDRO''] \<and>
   requests (state_of (region_change no_region)) = [GET ''/.netlify/functions/api/api/precios''] \<and>
   response_ok 200 \<and>
   currentPage (fetchData_resume (Response 200 [lima]) (state_of (region_change twentyfive))) = 1"
proof -
  note a = C7_region_request [OF twentyfive_selects(1-3) refl]
  note b = C7_region_request [OF twentyfive_selects(4-6) refl]
  have ok: "response_ok 200"
    by (simp add: response_ok_def)
  have "requests (state_of (region_change twentyfive)) =
      [GET ''/.netlify/functions/api/api/precios?departamento=LIMA&distrito=SAN+ISIDRO'']"
    using a by (simp add: twentyfive_selects sample_query sel_value_def)
  moreover have "requests (state_of (region_change no_region)) =
      [GET ''/.netlify/functions/api/api/precios'']"
    using b by (simp add: twentyfive_selects sel_value_def)
  moreover have "currentPage (fetchData_resume (Response 200 [lima])
      (state_of (region_change twentyfive))) = 1"
    using a ok by blast
  ultimately show ?thesis
    using ok by simp
qed

subsection \<open>The options of the selectors\<close>

lemma set_add_all_set: "set (set_add_all seen xs) = set seen \<union> set xs"
  by (induction xs arbitrary: seen) auto

lemma set_add_all_distinct: "distinct seen \<Longrightarrow> distinct (set_add_all seen xs)"
  by (induction xs arbitrary: seen) auto

lemma new_Set_set: "set (new_Set xs) = set xs"
  by (simp add: new_Set_def set_add_all_set)

lemma new_Set_distinct: "distinct (new_Set xs)"
  by (simp add: new_Set_def set_add_all_distinct)

lemma array_sort_defined:
  "JUndefined \<notin> set xs \<Longrightarrow> array_sort xs = sort_key toStr xs"
proof -
  assume "JUndefined \<notin> set xs"
  then have "filter (\<lambda>v. v \<noteq> JUndefined) xs = xs" "filter (\<lambda>v. v = JUndefined) xs = []"
    by (auto simp: filter_id_conv filter_empty_conv)
  then show ?thesis
    by (simp add: array_sort_def)
qed

lemma truthy_toStr: "truthy v \<Longrightarrow> toStr v \<noteq> []"
  by (cases v) (auto simp: string_of_int_def string_of_nat_nonempty)

lemma selector_values_props:
  "distinct (selector_values i records)"
  "sorted (map toStr (selector_values i records))"
  "set (selector_values i records) = {v \<in> selector_field i ` set records. truthy v}"
  "[] \<notin> set (map toStr (selector_values i records))"
proof -
  let ?vs = "new_Set (filter truthy (map (selector_field i) records))"
  have vs: "set ?vs = {v \<in> selector_field i ` set records. truthy v}"
    unfolding new_Set_set by auto
  have "\<not> truthy JUndefined"
    by simp
  then have "JUndefined \<notin> set ?vs"
    unfolding vs by blast
  then have s: "selector_values i records = sort_key toStr ?vs"
    unfolding selector_values_def by (rule array_sort_defined)
  show "distinct (selector_values i records)"
    unfolding s distinct_sort by (rule new_Set_distinct)
  show "sorted (map toStr (selector_values i records))"
    unfolding s by (rule sorted_sort_key)
  show mem: "set (selector_values i records) = {v \<in> selector_field i ` set records. truthy v}"
    unfolding s set_sort by (rule vs)
  show "[] \<notin> set (map toStr (selector_values i records))"
  proof
    assume "[] \<in> set (map toStr (selector_values i records))"
    then obtain v where v: "v \<in> set (selector_values i records)" and e: "toStr v = []"
      by auto
    from v have "truthy v"
      unfolding mem by blast
    then show False
      using truthy_toStr e by blast
  qed
qed

lemma selector_values_strings:
  assumes "\<forall>v \<in> set (selector_values i records). \<exists>t. v = JString t"
  shows "distinct (map toStr (selector_values i records))"
proof -
  have "inj_on toStr (set (selector_values i records))"
  proof (rule inj_onI)
    fix x y
    assume "x \<in> set (selector_values i records)" and "y \<in> set (selector_values i records)"
    then obtain a b where "x = JString a" and "y = JString b"
      using assms by blast
    moreover assume "toStr x = toStr y"
    ultimately show "x = y"
      by simp
  qed
  then show ?thesis
    by (simp add: distinct_map selector_values_props(1))
qed

lemma foldl_select_add:
  "0 \<le> selectedIndex sl \<Longrightarrow>
   foldl (\<lambda>acc opt. select_add acc (new_Option opt opt)) sl xs =
     sl\<lparr>sel_options := sel_options sl @ map (\<lambda>v. (toStr v, toStr v)) xs\<rparr>"
  by (induction xs arbitrary: sl) (simp_all add: select_add_def new_Option_def)

lemma first_index_none: "(\<And>x. x \<in> set xs \<Longrightarrow> \<not> P x) \<Longrightarrow> first_index P xs = - 1"
  by (induction xs) (simp_all add: Let_def)

lemma first_index_found:
  "\<exists>x \<in> set xs. P x \<Longrightarrow>
   0 \<le> first_index P xs \<and> first_index P xs < int (length xs) \<and>
   P (xs ! nat (first_index P xs))"
proof (induction xs)
  case Nil
  then show ?case by simp
next
  case (Cons x xs)
  show ?case
  proof (cases "P x")
    case True
    then show ?thesis by simp
  next
    case False
    then have "\<exists>y \<in> set xs. P y"
      using Cons.prems by auto
    then have ih: "0 \<le> first_index P xs" "first_index P xs < int (length xs)"
        "P (xs ! nat (first_index P xs))"
      using Cons.IH by blast+
    then show ?thesis
      using False by (simp add: Let_def nat_add_distrib)
  qed
qed

lemma updateSelect_Some:
  "updateSelect (Some old) opts =
     Some \<lparr>sel_options = (''Todos'', []) # map (\<lambda>v. (toStr v, toStr v)) (array_sort opts),
           selectedIndex =
             first_index (\<lambda>opt. snd opt = sel_value old)
               ((''Todos'', []) # map (\<lambda>v. (toStr v, toStr v)) (array_sort opts))\<rparr>"
  by (simp add: updateSelect_def Let_def foldl_select_add set_value_def)

lemma updateSelect_eq:
  "updateSelect sel opts =
     (case sel of
        None \<Rightarrow> None
      | Some old \<Rightarrow>
          Some \<lparr>sel_options = (''Todos'', []) # map (\<lambda>v. (toStr v, toStr v)) (array_sort opts),
                selectedIndex =
                  first_index (\<lambda>opt. snd opt = sel_value old)
                    ((''Todos'', []) # map (\<lambda>v. (toStr v, toStr v)) (array_sort opts))\<rparr>)"
proof (cases sel)
  case None
  then show ?thesis by (simp add: updateSelect_def)
next
  case (Some old)
  then show ?thesis by (simp only: updateSelect_Some option.case)
qed

lemma selected_value_kept:
  assumes "v \<in> snd ` set opts"
  shows "0 \<le> first_index (\<lambda>opt. snd opt = v) opts"
    and "sel_value \<lparr>sel_options = opts, selectedIndex = first_index (\<lambda>opt. snd opt = v) opts\<rparr> = v"
proof -
  have "\<exists>x \<in> set opts. snd x = v"
    using assms by auto
  from first_index_found [of opts "\<lambda>opt. snd opt = v", OF this]
  show "0 \<le> first_index (\<lambda>opt. snd opt = v) opts"
    and "sel_value \<lparr>sel_options = opts, selectedIndex = first_index (\<lambda>opt. snd opt = v) opts\<rparr> = v"
    by (simp_all add: sel_value_def)
qed

lemma selected_value_gone:
  assumes "v \<notin> snd ` set opts"
  shows "first_index (\<lambda>opt. snd opt = v) opts = - 1"
    and "sel_value \<lparr>sel_options = opts, selectedIndex = first_index (\<lambda>opt. snd opt = v) opts\<rparr> = []"
proof -
  have "\<And>x. x \<in> set opts \<Longrightarrow> \<not> snd x = v"
    using assms by auto
  then show i: "first_index (\<lambda>opt. snd opt = v) opts = - 1"
    by (rule first_index_none)
  show "sel_value \<lparr>sel_options = opts, selectedIndex = first_index (\<lambda>opt. snd opt = v) opts\<rparr> = []"
    by (simp add: sel_value_def i)
qed

lemma getElementById_updateFilterOptions:
  "getElementById (updateFilterOptions s) i =
     updateSelect (getElementById s i) (new_Set (filter truthy (map (selector_field i) (currentData s))))"
  by (cases i) (simp_all add: updateFilterOptions_def Let_def)

lemma renderTable_frame:
  "currentData (renderTable s) = currentData s"
  "currentPage (renderTable s) = currentPage s"
  "pagination (renderTable s) = pagination s"
  "pagination_info (renderTable s) = pagination_info s"
  by (simp_all add: renderTable_eq)

lemma getElementById_frame:
  "getElementById (hideLoading s) i = getElementById s i"
  "getElementById (state_of (updatePagination s)) i = getElementById s i"
  "getElementById (renderTable s) i = getElementById s i"
  "getElementById (s\<lparr>currentData := records, currentPage := n\<rparr>) i = getElementById s i"
  by (cases i; simp add: hideLoading_def updatePagination_frame renderTable_eq)+

lemma thrown_updatePagination:
  "thrown (updatePagination s) =
     (if pagination s \<noteq> None \<and> currentData s \<noteq> [] \<and> pagination_info s = None
      then Some TypeError else None)"
  by (simp add: updatePagination_def Let_def split: option.split)

lemma fetchData_resume_ok:
  assumes "response_ok status"
    and "pagination s = None \<or> records = [] \<or> pagination_info s \<noteq> None"
  shows "fetchData_resume (Response status records) s =
     hideLoading (updateFilterOptions (state_of (updatePagination
       (renderTable (s\<lparr>currentData := records, currentPage := 1\<rparr>)))))"
proof -
  let ?s3 = "renderTable (s\<lparr>currentData := records, currentPage := 1\<rparr>)"
  have "thrown (updatePagination ?s3) = None"
    using assms(2) by (auto simp: thrown_updatePagination renderTable_eq)
  then obtain s4 where d: "updatePagination ?s3 = Done s4"
    by (cases "updatePagination ?s3") simp_all
  then have "fetchData_try (Response status records) s = Done (updateFilterOptions s4)"
    using assms(1) by (simp add: fetchData_try_def Let_def)
  then show ?thesis
    by (simp add: fetchData_resume_def d)
qed

lemma fetchData_resume_ok_select:
  assumes "response_ok status"
    and "pagination s = None \<or> records = [] \<or> pagination_info s \<noteq> None"
  shows "getElementById (fetchData_resume (Response status records) s) i =
     updateSelect (getElementById s i) (new_Set (filter truthy (map (selector_field i) records)))"
  unfolding fetchData_resume_ok [OF assms]
  by (simp add: getElementById_frame getElementById_updateFilterOptions updatePagination_frame
      renderTable_frame)

text \<open>
  C5, as stated, fails in its last clause: when the value a selector had is not among
  the new options, the setter of \<open>select.value\<close> leaves no option selected. After a
  fetch of three records from Miraflores and Wanchaq on a page whose district selector
  was on "SAN ISIDRO", that selector has \<open>selectedIndex\<close> \<open>-1\<close>: the option "Todos", at
  index 0, is not selected.
\<close>

theorem C5_selector_options_counterexample:
  "map_option sel_value (getElementById twentyfive Distrito) = Some ''SAN ISIDRO'' \<and>
   map_option sel_options
     (getElementById (fetchData_resume (Response 200 [lima, farmacia, lima]) twentyfive) Distrito) =
     Some [(''Todos'', []), (''MIRAFLORES'', ''MIRAFLORES''), (''WANCHAQ'', ''WANCHAQ'')] \<and>
   map_option selectedIndex
     (getElementById (fetchData_resume (Response 200 [lima, farmacia, lima]) twentyfive) Distrito) =
     Some (- 1)"
  by code_simp

text \<open>
  C5, amended. After a fetch answered with a status in 200..299, whose redraw did not
  throw (no pagination container, or no record, or the info element is there), each
  selector that the page has holds the option "Todos" with the empty value followed by
  one option for each value of \<open>selector_values\<close>, text and value both its \<open>ToString\<close>.
  These values are the truthy values of the selector's field in the loaded records, each
  once, ascending in the order of their texts, and none has the empty text; when they
  are all strings the option texts are distinct too. The first option that has the
  selector's former value is selected: if an option has that value the selector keeps
  it, and otherwise no option is selected (\<open>selectedIndex\<close> is \<open>-1\<close>) and the selector's
  value reads empty.
\<close>

theorem C5_selector_options:
  assumes "response_ok status"
    and "pagination s = None \<or> records = [] \<or> pagination_info s \<noteq> None"
  shows "getElementById (fetchData_resume (Response status records) s) i =
           (case getElementById s i of
              None \<Rightarrow> None
            | Some old \<Rightarrow>
                Some \<lparr>sel_options =
                        (''Todos'', []) # map (\<lambda>v. (toStr v, toStr v)) (selector_values i records),
                      selectedIndex =
                        first_index (\<lambda>opt. snd opt = sel_value old)
                          ((''Todos'', []) #
                           map (\<lambda>v. (toStr v, toStr v)) (selector_values i records))\<rparr>) \<and>
         distinct (selector_values i records) \<and>
         sorted (map toStr (selector_values i records)) \<and>
         set (selector_values i records) = {v \<in> selector_field i ` set records. truthy v} \<and>
         [] \<notin> set (map toStr (selector_values i records)) \<and>
         ((\<forall>v \<in> set (selector_values i records). \<exists>t. v = JString t) \<longrightarrow>
            distinct (map toStr (selector_values i records))) \<and>
         (\<forall>old new.
            getElementById s i = Some old \<and>
            getElementById (fetchData_resume (Response status records) s) i = Some new \<longrightarrow>
              (sel_value old \<in> set ([] # map toStr (selector_values i records)) \<longrightarrow>
                 0 \<le> selectedIndex new \<and> sel_value new = sel_value old) \<and>
              (sel_value old \<notin> set ([] # map toStr (selector_values i records)) \<longrightarrow>
                 selectedIndex new = - 1 \<and> sel_value new = []))"
proof -
  define opts where
    "opts = (''Todos'', []) # map (\<lambda>v. (toStr v, toStr v)) (selector_values i records)"
  have "getElementById (fetchData_resume (Response status records) s) i =
      updateSelect (getElementById s i) (new_Set (filter truthy (map (selector_field i) records)))"
    using assms by (rule fetchData_resume_ok_select)
  then have sel: "getElementById (fetchData_resume (Response status records) s) i =
           (case getElementById s i of
              None \<Rightarrow> None
            | Some old \<Rightarrow>
                Some \<lparr>sel_options = opts,
                      selectedIndex = first_index (\<lambda>opt. snd opt = sel_value old) opts\<rparr>)"
    unfolding updateSelect_eq selector_values_def opts_def .
  have vals: "snd ` set opts = set ([] # map toStr (selector_values i records))"
    by (simp add: opts_def image_image)
  have selection: "\<forall>old new.
            getElementById s i = Some old \<and>
            getElementById (fetchData_resume (Response status records) s) i = Some new \<longrightarrow>
              (sel_value old \<in> set ([] # map toStr (selector_values i records)) \<longrightarrow>
                 0 \<le> selectedIndex new \<and> sel_value new = sel_value old) \<and>
              (sel_value old \<notin> set ([] # map toStr (selector_values i records)) \<longrightarrow>
                 selectedIndex new = - 1 \<and> sel_value new = [])"
  proof (intro allI impI)
    fix old new
    assume h: "getElementById s i = Some old \<and>
        getElementById (fetchData_resume (Response status records) s) i = Some new"
    from h have o: "getElementById s i = Some old"
      by (rule conjunct1)
    from h have n: "getElementById (fetchData_resume (Response status records) s) i = Some new"
      by (rule conjunct2)
    have new: "new = \<lparr>sel_options = opts,
        selectedIndex = first_index (\<lambda>opt. snd opt = sel_value old) opts\<rparr>"
      using sel by (simp add: o n)
    show "(sel_value old \<in> set ([] # map toStr (selector_values i records)) \<longrightarrow>
                 0 \<le> selectedIndex new \<and> sel_value new = sel_value old) \<and>
              (sel_value old \<notin> set ([] # map toStr (selector_values i records)) \<longrightarrow>
                 selectedIndex new = - 1 \<and> sel_value new = [])"
      unfolding vals [symmetric] new
      using selected_value_kept [of "sel_value old" opts]
        selected_value_gone [of "sel_value old" opts]
      by simp
  qed
  from sel [unfolded opts_def] selector_values_props [of i records]
    selector_values_strings [of i records] selection
  show ?thesis
    by blast
qed

lemma three_records:
  "selector_values Distrito [lima, farmacia, lima] = [JString ''MIRAFLORES'', JString ''WANCHAQ'']"
  "selector_values Departamento [lima, farmacia, lima] = [JString ''CUSCO'', JString ''LIMA'']"
  "getElementById twentyfive Distrito =
     Some \<lparr>sel_options = [(''Todos'', []), (''SAN ISIDRO'', ''SAN ISIDRO'')], selectedIndex = 1\<rparr>"
  "getElementById twentyfive Departamento =
     Some \<lparr>sel_options = [(''Todos'', []), (''LIMA'', ''LIMA'')], selectedIndex = 1\<rparr>"
  "pagination_info twentyfive \<noteq> None"
  "response_ok 200"
  by code_simp+

lemma three_records_selection:
  "first_index
     (\<lambda>opt. snd opt =
        sel_value \<lparr>sel_options = [(''Todos'', []), (''SAN ISIDRO'', ''SAN ISIDRO'')],
                    selectedIndex = 1\<rparr>)
     ((''Todos'', []) # map (\<lambda>v. (toStr v, toStr v)) [JString ''MIRAFLORES'', JString ''WANCHAQ'']) =
   - 1"
  "first_index
     (\<lambda>opt. snd opt =
        sel_value \<lparr>sel_options = [(''Todos'', []), (''LIMA'', ''LIMA'')], selectedIndex = 1\<rparr>)
     ((''Todos'', []) # map (\<lambda>v. (toStr v, toStr v)) [JString ''CUSCO'', JString ''LIMA'']) =
   2"
  by code_simp+

theorem C5_selector_options_witness:
  "getElementById (fetchData_resume (Response 200 [lima, farmacia, lima]) twentyfive) Distrito =
     Some \<lparr>sel_options =
             [(''Todos'', []), (''MIRAFLORES'', ''MIRAFLORES''), (''WANCHAQ'', ''WANCHAQ'')],
           selectedIndex = - 1\<rparr> \<and>
   getElementById (fetchData_resume (Response 200 [lima, farmacia, lima]) twentyfive) Departamento =
     Some \<lparr>sel_options = [(''Todos'', []), (''CUSCO'', ''CUSCO''), (''LIMA'', ''LIMA'')],
           selectedIndex = 2\<rparr>"
proof -
  have dom: "pagination twentyfive = None \<or> [lima, farmacia, lima] = [] \<or>
      pagination_info twentyfive \<noteq> None"
    using three_records(5) by blast
  note a = C5_selector_options [OF three_records(6) dom, of Distrito, THEN conjunct1,
      unfolded three_records(1,3) option.case three_records_selection]
  note b = C5_selector_options [OF three_records(6) dom, of Departamento, THEN conjunct1,
      unfolded three_records(2,4) option.case three_records_selection]
  show ?thesis
    using a b by simp
qed

subsection \<open>Missing elements, and the headers of the server adapters\<close>

lemma other_operations_return:
  "tbody s = None \<Longrightarrow> renderTable s = s"
  "pagination s = None \<Longrightarrow> updatePagination s = Done s"
  "updateSelect None opts = None"
  "set (addEventListeners s) = {i. getElementById s i \<noteq> None}"
proof -
  show "tbody s = None \<Longrightarrow> renderTable s = s"
    by (simp add: renderTable_def)
  show "pagination s = None \<Longrightarrow> updatePagination s = Done s"
    by (simp add: updatePagination_def)
  show "updateSelect None opts = None"
    by (simp add: updateSelect_def)
  show "set (addEventListeners s) = {i. getElementById s i \<noteq> None}"
  proof -
    have "set [Departamento, Provincia, Distrito, TipoEstablecimiento] = UNIV"
      using selector_id.exhaust by auto
    then show ?thesis
      unfolding addEventListeners_def set_filter by simp
  qed
qed

text \<open>
  C8. A missing element is to make each operation a no-op for that element, with nothing
  thrown. \<open>renderTable\<close>, \<open>updateSelect\<close> and the wiring of the listeners do so, and
  \<open>updatePagination\<close> does so for the container; but with the container present, the
  info element missing and one record loaded, \<open>updatePagination\<close> throws a
  \<open>TypeError\<close> after assigning \<open>totalPages\<close>. The establishment-type listener then
  throws too, and a fetch answered with 200 ends in the error alert.
\<close>

theorem C8_missing_info_element_throws:
  "pagination no_info \<noteq> None \<and> pagination_info no_info = None \<and>
   updatePagination no_info = Threw TypeError (no_info\<lparr>totalPages := 1\<rparr>) \<and>
   thrown (tipoEstablecimiento_change [] no_info) = Some TypeError \<and>
   alerts (fetchData_resume (Response 200 [lima]) no_info) = [alert_message]"
  by code_simp

lemma cors_header_names:
  "toLowerCase ''Access-Control-Allow-Origin'' = ''access-control-allow-origin''"
  "toLowerCase ''Access-Control-Allow-Methods'' = ''access-control-allow-methods''"
  "toLowerCase ''Access-Control-Allow-Headers'' = ''access-control-allow-headers''"
  by code_simp+

lemma getHeader_setHeader:
  "toLowerCase a = toLowerCase b \<Longrightarrow> getHeader a (setHeader b v res) = Some v"
  "toLowerCase a \<noteq> toLowerCase b \<Longrightarrow> getHeader a (setHeader b v res) = getHeader a res"
  by (simp_all add: getHeader_def setHeader_def)

text \<open>
  C9. Both adapters are to attach the three CORS headers to every response. The callback
  that \<open>src/api/api.js\<close> registers does set them, on whatever response it is given and
  whatever that response carried before. The handler at the end of
  \<open>src/static/script.js\<close> sets nothing: for every \<open>Mangum\<close>, application, event and
  context its response is the response of \<open>Mangum\<close>, so the headers are there only if
  the application put them there.
\<close>

theorem C9_mangum_handler_sets_no_header:
  "cors_attached (callback req res) \<and>
   exports_handler Mangum app event context = Mangum app event context"
proof
  have names: "''access-control-allow-origin'' \<noteq> ''access-control-allow-methods''"
      "''access-control-allow-origin'' \<noteq> ''access-control-allow-headers''"
      "''access-control-allow-methods'' \<noteq> ''access-control-allow-headers''"
    by simp_all
  show "cors_attached (callback req res)"
    using names
    by (simp add: cors_attached_def callback_def getHeader_def setHeader_def cors_header_names)
  show "exports_handler Mangum app event context = Mangum app event context"
    by (simp add: exports_handler_def)
qed

end
